theory Spec2Isabelle
  imports Main
begin

section \<open>Scheduling work queue of txdav/caldav/datastore/scheduling/work.py\<close>

text \<open>
  A shallow embedding of the scheduling work items: the SQL tables are lists of rows,
  the transaction is a record of those tables that every operation takes and returns,
  an exception is a value of \<open>error\<close>, and every call into a collaborator that is not
  part of work.py (named locks, the implicit scheduler, the logger) is an entry of the
  transaction's event list, in program order.
\<close>

subsection \<open>Constants and configuration that work.py imports\<close>

text \<open>
  The class iTIPRequestStatus (itip.py) and the configuration object are imported by
  work.py; the three status codes and the options that work.py reads are parameters
  of the model.
\<close>

record iTIPRequestStatus =
  MESSAGE_PENDING_CODE :: string
  MESSAGE_DELIVERED_CODE :: string
  SERVICE_UNAVAILABLE_CODE :: string

record config =
  RequestDelaySeconds :: int
  ReplyDelaySeconds :: int
  AutoReplyDelaySeconds :: int
  AttendeeRefreshBatchDelaySeconds :: int
  AttendeeRefreshBatchIntervalSeconds :: int
  AttendeeRefreshBatch :: int
  MaxTemporaryFailures :: int
  TemporaryFailureDelay :: int

subsection \<open>Rows, calendar data and the transaction\<close>

datatype workType =
    ScheduleOrganizerWork
  | ScheduleOrganizerSendWork
  | ScheduleReplyWork
  | ScheduleRefreshWork
  | ScheduleAutoReplyWork

datatype scheduleAction = create | modify | remove

datatype error =
    JobTemporaryError int
  | NoSuchRecord
  | AttributeError
  | UnboundLocalError
  | ValueError

datatype 'a result = Return 'a | Raise error

text \<open>
  An ATTENDEE or ORGANIZER property: its calendar user address and its SCHEDULE-STATUS
  parameter, the only parameter work.py writes.
\<close>

record property =
  pvalue :: string
  SCHEDULE_STATUS :: "string option"

record Component =
  AttendeeProperties :: "property list"
  OrganizerProperties :: "property list"

record CalendarObject =
  co_id :: nat
  co_home :: nat
  co_uid :: string
  co_component :: Component

record CalendarHome =
  home_id :: nat
  home_uid :: string

record JobItem =
  job_jobID :: nat
  job_workType :: workType
  job_notBefore :: int
  job_failed :: int
  job_pause :: int

text \<open>The SCHEDULE_WORK row (class ScheduleWork): the work group ledger.\<close>

record ScheduleWork =
  sw_workID :: nat
  sw_jobID :: nat
  sw_icalendarUID :: string
  sw_workType :: workType

record OrganizerWork =
  ow_workID :: nat
  ow_homeResourceID :: nat
  ow_resourceID :: "nat option"
  ow_scheduleAction :: scheduleAction
  ow_icalendarTextOld :: string
  ow_icalendarTextNew :: string
  ow_attendeeCount :: int
  ow_smartMerge :: bool

record OrganizerSendWork =
  osw_workID :: nat
  osw_homeResourceID :: nat
  osw_resourceID :: "nat option"
  osw_scheduleAction :: scheduleAction
  osw_attendee :: string
  osw_itipMsg :: string
  osw_noRefresh :: bool

record ReplyWork =
  rw_workID :: nat
  rw_homeResourceID :: nat
  rw_resourceID :: "nat option"
  rw_itipMsg :: string

record RefreshWork =
  rfw_workID :: nat
  rfw_homeResourceID :: nat
  rfw_resourceID :: nat
  rfw_attendeeCount :: int

record AutoReplyWork =
  arw_workID :: nat
  arw_homeResourceID :: nat
  arw_resourceID :: nat
  arw_partstat :: string

text \<open>
  What the code calls on its collaborators, in the order it calls them. A Select,
  Insert or Delete on the two refresh tables and on the auto-reply table is recorded
  as well as performed on the table.
\<close>

datatype event =
    Log string
  | baseWork_trylock string bool
  | self_trylock nat bool
  | NamedLock_acquire string
  | queuedOrganizerProcessing string
  | queuedOrganizerSending string string
  | doSchedulingViaPUT string
  | refreshAllAttendeesExceptSome nat "string list"
  | sendAttendeeReply nat
  | setComponentInternal nat
  | Select_REFRESH_WORK nat nat
  | Select_REFRESH_ATTENDEES nat
  | Insert_REFRESH_ATTENDEES nat string
  | Delete_REFRESH_ATTENDEES nat "string list"
  | Delete_AUTO_REPLY_WORK nat
  | enqueue workType nat
  | job_update nat int
  | ScheduleWork_query string nat
  | postCommit_allDone

record txn =
  JOB :: "JobItem list"
  SCHEDULE_WORK :: "ScheduleWork list"
  SCHEDULE_ORGANIZER_WORK :: "OrganizerWork list"
  SCHEDULE_ORGANIZER_SEND_WORK :: "OrganizerSendWork list"
  SCHEDULE_REPLY_WORK :: "ReplyWork list"
  SCHEDULE_REFRESH_WORK :: "RefreshWork list"
  SCHEDULE_REFRESH_ATTENDEES :: "(nat \<times> string) list"
  SCHEDULE_AUTO_REPLY_WORK :: "AutoReplyWork list"
  CALENDAR_HOME :: "CalendarHome list"
  CALENDAR_OBJECT :: "CalendarObject list"
  JOB_SEQ :: nat
  WORKITEM_SEQ :: nat
  queued :: int
  allDoneCallback :: bool
  events :: "event list"

definition emit :: "event \<Rightarrow> txn \<Rightarrow> txn" where
  "emit e t = t\<lparr>events := events t @ [e]\<rparr>"

subsection \<open>Store lookups\<close>

definition calendarHomeWithResourceID :: "txn \<Rightarrow> nat \<Rightarrow> CalendarHome option" where
  "calendarHomeWithResourceID t hid = find (\<lambda>h. home_id h = hid) (CALENDAR_HOME t)"

definition objectResourceWithID :: "txn \<Rightarrow> CalendarHome \<Rightarrow> nat option \<Rightarrow> CalendarObject option" where
  "objectResourceWithID t home rid =
     (case rid of
        None \<Rightarrow> None
      | Some r \<Rightarrow> find (\<lambda>c. co_home c = home_id home \<and> co_id c = r) (CALENDAR_OBJECT t))"

definition JobItem_load :: "txn \<Rightarrow> nat \<Rightarrow> JobItem result" where
  "JobItem_load t jid =
     (case find (\<lambda>j. job_jobID j = jid) (JOB t) of
        None \<Rightarrow> Raise NoSuchRecord
      | Some j \<Rightarrow> Return j)"

text \<open>resource._setComponentInternal(calendar, ...): the object's data is replaced.\<close>

definition setComponentInternal_store :: "CalendarObject \<Rightarrow> Component \<Rightarrow> txn \<Rightarrow> txn" where
  "setComponentInternal_store resource calendar t =
     emit (setComponentInternal (co_id resource))
       (t\<lparr>CALENDAR_OBJECT :=
            map (\<lambda>c. if co_id c = co_id resource then c\<lparr>co_component := calendar\<rparr> else c)
              (CALENDAR_OBJECT t)\<rparr>)"

subsection \<open>ScheduleWorkMixin: locking, dequeue hook, response policy\<close>

text \<open>
  runlock. Record.trylock is not part of work.py: it tries a SELECT ... FOR UPDATE
  NOWAIT and answers with a boolean. The two answers are the arguments \<open>group_ok\<close>
  (the lock on every SCHEDULE_WORK row of the UID) and \<open>row_ok\<close> (the item's own row);
  each attempt is recorded with its answer. The answer of \<open>self.trylock()\<close> is not
  bound to a name by the code.
\<close>

definition runlock :: "string \<Rightarrow> nat \<Rightarrow> bool \<Rightarrow> bool \<Rightarrow> txn \<Rightarrow> bool \<times> txn" where
  "runlock icalendarUID workID group_ok row_ok t =
     (let t1 = emit (baseWork_trylock icalendarUID group_ok) t;
          locked = group_ok
      in if locked then (locked, emit (self_trylock workID row_ok) t1) else (locked, t1))"

definition dequeued :: "txn \<Rightarrow> txn" where
  "dequeued t =
     (let t1 = t\<lparr>queued := queued t - 1\<rparr>
      in if queued t1 = 0 then
           (if allDoneCallback t1 then emit postCommit_allDone t1 else t1)
         else t1)"

definition enqueued :: "txn \<Rightarrow> txn" where
  "enqueued t = t\<lparr>queued := queued t + 1\<rparr>"

text \<open>status.split(";")[0]\<close>

definition statusCode_of :: "string \<Rightarrow> string" where
  "statusCode_of status = takeWhile (\<lambda>c. c \<noteq> CHR '';'') status"

text \<open>
  extractSchedulingResponse: a response is the list of its (recipient, reqstatus)
  items; the two nested loops visit the items of all responses in order.
\<close>

definition extractSchedulingResponse ::
  "iTIPRequestStatus \<Rightarrow> (string \<times> string) list list \<Rightarrow> (string \<times> string) list \<times> bool" where
  "extractSchedulingResponse codes queuedResponses =
     (let results = map (\<lambda>item. (fst item, statusCode_of (snd item))) (concat queuedResponses);
          all_delivered = list_all (\<lambda>r. snd r = MESSAGE_DELIVERED_CODE codes) results
      in (results, all_delivered))"

text \<open>
  handleSchedulingResponse: for each (recipient, statusCode) that is not the delivered
  code, every property whose value is the recipient gets the code as SCHEDULE-STATUS.
\<close>

definition setParameter_matching :: "string \<Rightarrow> string \<Rightarrow> property list \<Rightarrow> property list" where
  "setParameter_matching recipient statusCode ps =
     map (\<lambda>p. if pvalue p = recipient then p\<lparr>SCHEDULE_STATUS := Some statusCode\<rparr> else p) ps"

fun handle_loop ::
  "iTIPRequestStatus \<Rightarrow> (string \<times> string) list \<Rightarrow> property list \<Rightarrow> bool \<Rightarrow> bool \<times> property list" where
  "handle_loop codes [] ps changed = (changed, ps)"
| "handle_loop codes ((recipient, statusCode) # rest) ps changed =
     (if statusCode \<noteq> MESSAGE_DELIVERED_CODE codes then
        handle_loop codes rest (setParameter_matching recipient statusCode ps)
          (changed \<or> list_ex (\<lambda>p. pvalue p = recipient) ps)
      else handle_loop codes rest ps changed)"

definition handleSchedulingResponse ::
  "iTIPRequestStatus \<Rightarrow> (string \<times> string) list \<Rightarrow> Component \<Rightarrow> bool \<Rightarrow> bool \<times> Component" where
  "handleSchedulingResponse codes response calendar is_organizer =
     (if is_organizer then
        (let (changed, ps) = handle_loop codes response (AttendeeProperties calendar) False
         in (changed, calendar\<lparr>AttendeeProperties := ps\<rparr>))
      else
        (let (changed, ps) = handle_loop codes response (OrganizerProperties calendar) False
         in (changed, calendar\<lparr>OrganizerProperties := ps\<rparr>)))"

text \<open>
  checkTemporaryFailure: the test is over all results; the job is loaded only when
  the test holds. It returns the (possibly rewritten) list \<open>results\<close>.
\<close>

definition checkTemporaryFailure ::
  "config \<Rightarrow> iTIPRequestStatus \<Rightarrow> txn \<Rightarrow> nat \<Rightarrow> (string \<times> string) list \<Rightarrow> (string \<times> string) list result" where
  "checkTemporaryFailure cfg codes t jobID results =
     (if list_all (\<lambda>result. snd result = MESSAGE_PENDING_CODE codes) results then
        (case JobItem_load t jobID of
           Raise e \<Rightarrow> Raise e
         | Return job \<Rightarrow>
             if job_failed job \<ge> MaxTemporaryFailures cfg then
               Return (map (\<lambda>result. (fst result, SERVICE_UNAVAILABLE_CODE codes)) results)
             else Raise (JobTemporaryError (TemporaryFailureDelay cfg)))
      else Return results)"

text \<open>
  The response handling that ScheduleOrganizerSendWork.doWork (is_organizer = True)
  and ScheduleReplyWork.doWork (is_organizer = False) share, from the test
  \<open>resource is not None\<close> to the call of \<open>_dequeued\<close>.
\<close>

definition processResponses ::
  "config \<Rightarrow> iTIPRequestStatus \<Rightarrow> nat \<Rightarrow> bool \<Rightarrow> CalendarObject option \<Rightarrow>
   (string \<times> string) list list \<Rightarrow> txn \<Rightarrow> unit result \<times> txn" where
  "processResponses cfg codes jobID is_organizer resource queuedResponses t =
     (case resource of
        None \<Rightarrow> (Return (), dequeued t)
      | Some res \<Rightarrow>
          (let (responses, all_delivered) = extractSchedulingResponse codes queuedResponses
           in if \<not> all_delivered then
                (case checkTemporaryFailure cfg codes t jobID responses of
                   Raise e \<Rightarrow> (Raise e, t)
                 | Return responses' \<Rightarrow>
                     (let calendar = co_component res;
                          (changed, calendar') =
                             handleSchedulingResponse codes responses' calendar is_organizer
                      in if changed
                         then (Return (), dequeued (setComponentInternal_store res calendar' t))
                         else (Return (), dequeued t)))
              else (Return (), dequeued t)))"


subsection \<open>ScheduleOrganizerSendWork.doWork and ScheduleReplyWork.doWork\<close>

text \<open>
  The implicit scheduler and the CalDAV scheduler are collaborators: what they hand
  back (\<open>scheduler.resource\<close>, \<open>scheduler.queuedResponses\<close>, the reply's response) is
  an argument. A home that does not exist makes \<open>home.objectResourceWithID\<close> an
  attribute access on None. Every exception is logged and raised again. In
  ScheduleReplyWork.doWork the handler's log call reads \<open>itipmsg.resourceUID()\<close>, and
  \<open>itipmsg\<close> is bound only after the home and resource lookups: with no home the
  handler itself raises UnboundLocalError and nothing is logged.
\<close>

record scheduler =
  sched_resource :: "CalendarObject option"
  sched_queuedResponses :: "(string \<times> string) list list"

definition ScheduleOrganizerSendWork_doWork ::
  "config \<Rightarrow> iTIPRequestStatus \<Rightarrow> ScheduleWork \<Rightarrow> OrganizerSendWork \<Rightarrow> scheduler \<Rightarrow> txn \<Rightarrow>
   unit result \<times> txn" where
  "ScheduleOrganizerSendWork_doWork cfg codes baseWork self sched t =
     (case calendarHomeWithResourceID t (osw_homeResourceID self) of
        None \<Rightarrow> (Raise AttributeError, emit (Log ''ScheduleOrganizerSendWork - exception'') t)
      | Some home \<Rightarrow>
          (let t1 = emit (Log ''ScheduleOrganizerSendWork - running'') t;
               t2 = emit (NamedLock_acquire (sw_icalendarUID baseWork)) t1;
               t3 = emit (queuedOrganizerSending (sw_icalendarUID baseWork) (osw_attendee self)) t2;
               resource = sched_resource sched
           in case processResponses cfg codes (sw_jobID baseWork) True resource
                     (sched_queuedResponses sched) t3 of
                (Raise e, t4) \<Rightarrow> (Raise e, emit (Log ''ScheduleOrganizerSendWork - exception'') t4)
              | (Return u, t4) \<Rightarrow> (Return u, emit (Log ''ScheduleOrganizerSendWork - done'') t4)))"

definition ScheduleReplyWork_doWork ::
  "config \<Rightarrow> iTIPRequestStatus \<Rightarrow> ScheduleWork \<Rightarrow> ReplyWork \<Rightarrow> (string \<times> string) list \<Rightarrow> txn \<Rightarrow>
   unit result \<times> txn" where
  "ScheduleReplyWork_doWork cfg codes baseWork self response t =
     (case calendarHomeWithResourceID t (rw_homeResourceID self) of
        None \<Rightarrow> (Raise UnboundLocalError, t)
      | Some home \<Rightarrow>
          (let resource = objectResourceWithID t home (rw_resourceID self);
               t1 = emit (Log ''ScheduleReplyWork - running'') t;
               t2 = emit (NamedLock_acquire (sw_icalendarUID baseWork)) t1;
               t3 = emit (doSchedulingViaPUT (sw_icalendarUID baseWork)) t2
           in case processResponses cfg codes (sw_jobID baseWork) False resource [response] t3 of
                (Raise e, t4) \<Rightarrow> (Raise e, emit (Log ''ScheduleReplyWork - exception'') t4)
              | (Return u, t4) \<Rightarrow> (Return u, emit (Log ''ScheduleReplyWork - done'') t4)))"


subsection \<open>Creating work: txn.enqueue and ScheduleWorkMixin.create\<close>

text \<open>
  Modelled from the spec: \<open>txn.enqueue\<close> of the durable job primitive is not part of
  work.py. It stores a job with a new job id, the given \<open>notBefore\<close> and \<open>pause\<close> and
  no failure yet, and calls the class's \<open>create\<close>. ScheduleWorkMixin.create first
  inserts the SCHEDULE_WORK row (new work id, job id, UID, work type), then the
  kind's own row with that work id; \<open>insert_row\<close> is that second insertion. Ids come
  from sequences, so a later item has a larger id.
\<close>

definition ScheduleWorkMixin_create ::
  "workType \<Rightarrow> nat \<Rightarrow> string \<Rightarrow> (nat \<Rightarrow> txn \<Rightarrow> txn) \<Rightarrow> txn \<Rightarrow> ScheduleWork \<times> txn" where
  "ScheduleWorkMixin_create cls jobID icalendarUID insert_row t =
     (let baseWork = \<lparr>sw_workID = WORKITEM_SEQ t, sw_jobID = jobID,
                       sw_icalendarUID = icalendarUID, sw_workType = cls\<rparr>;
          t1 = t\<lparr>SCHEDULE_WORK := SCHEDULE_WORK t @ [baseWork],
                 WORKITEM_SEQ := Suc (WORKITEM_SEQ t)\<rparr>
      in (baseWork, insert_row (sw_workID baseWork) t1))"

definition txn_enqueue ::
  "workType \<Rightarrow> string \<Rightarrow> int \<Rightarrow> int \<Rightarrow> (nat \<Rightarrow> txn \<Rightarrow> txn) \<Rightarrow> txn \<Rightarrow> ScheduleWork \<times> txn" where
  "txn_enqueue cls icalendarUID notBefore pause insert_row t =
     (let job = \<lparr>job_jobID = JOB_SEQ t, job_workType = cls, job_notBefore = notBefore,
                  job_failed = 0, job_pause = pause\<rparr>;
          t1 = t\<lparr>JOB := JOB t @ [job], JOB_SEQ := Suc (JOB_SEQ t)\<rparr>;
          (baseWork, t2) = ScheduleWorkMixin_create cls (job_jobID job) icalendarUID insert_row t1
      in (baseWork, emit (enqueue cls (sw_workID baseWork)) t2))"

subsection \<open>ScheduleWorkMixin.loadForJob, delete and afterWork\<close>

text \<open>
  loadForJob, for a class whose table is read by \<open>table\<close> and whose rows have the work
  id \<open>wid\<close>: a SCHEDULE_WORK row of the job with no row of the class is deleted and
  skipped.
\<close>

definition baseItem_delete :: "ScheduleWork \<Rightarrow> txn \<Rightarrow> txn" where
  "baseItem_delete baseItem t =
     t\<lparr>SCHEDULE_WORK := filter (\<lambda>b. sw_workID b \<noteq> sw_workID baseItem) (SCHEDULE_WORK t)\<rparr>"

fun loadForJob_loop ::
  "(txn \<Rightarrow> 'w list) \<Rightarrow> ('w \<Rightarrow> nat) \<Rightarrow> ScheduleWork list \<Rightarrow> txn \<Rightarrow> (ScheduleWork \<times> 'w) list \<times> txn" where
  "loadForJob_loop table wid [] t = ([], t)"
| "loadForJob_loop table wid (baseItem # rest) t =
     (case filter (\<lambda>w. wid w = sw_workID baseItem) (table t) of
        [] \<Rightarrow> loadForJob_loop table wid rest (baseItem_delete baseItem t)
      | workItem # _ \<Rightarrow>
          (let (workItems, t') = loadForJob_loop table wid rest t
           in ((baseItem, workItem) # workItems, t')))"

definition loadForJob ::
  "(txn \<Rightarrow> 'w list) \<Rightarrow> ('w \<Rightarrow> nat) \<Rightarrow> nat \<Rightarrow> txn \<Rightarrow> (ScheduleWork \<times> 'w) list \<times> txn" where
  "loadForJob table wid jobID t =
     loadForJob_loop table wid (filter (\<lambda>b. sw_jobID b = jobID) (SCHEDULE_WORK t)) t"

text \<open>
  afterWork: the base class hook does nothing. The query is ordered by work id and
  limited to one row. JobItem.load raises when the job is gone.
\<close>

definition JobItem_update_notBefore :: "nat \<Rightarrow> int \<Rightarrow> txn \<Rightarrow> txn" where
  "JobItem_update_notBefore jobID now t =
     emit (job_update jobID now)
       (t\<lparr>JOB := map (\<lambda>j. if job_jobID j = jobID then j\<lparr>job_notBefore := now\<rparr> else j) (JOB t)\<rparr>)"

definition afterWork_query :: "txn \<Rightarrow> string \<Rightarrow> nat \<Rightarrow> ScheduleWork list" where
  "afterWork_query t icalendarUID workID =
     take 1 (sort_key sw_workID
       (filter (\<lambda>b. sw_icalendarUID b = icalendarUID \<and> sw_workID b \<noteq> workID) (SCHEDULE_WORK t)))"

definition afterWork :: "int \<Rightarrow> ScheduleWork \<Rightarrow> txn \<Rightarrow> unit result \<times> txn" where
  "afterWork now baseWork t =
     (if sw_workType baseWork = ScheduleOrganizerSendWork then
        (let all = afterWork_query t (sw_icalendarUID baseWork) (sw_workID baseWork);
             t1 = emit (ScheduleWork_query (sw_icalendarUID baseWork) (sw_workID baseWork)) t
         in case all of
              [] \<Rightarrow> (Return (), t1)
            | work # _ \<Rightarrow>
                if sw_workType work = sw_workType baseWork then
                  (case JobItem_load t1 (sw_jobID work) of
                     Raise e \<Rightarrow> (Raise e, t1)
                   | Return job \<Rightarrow>
                       (Return (),
                        emit (Log ''ScheduleOrganizerSendWork - promoted job'')
                          (JobItem_update_notBefore (job_jobID job) now t1)))
                else (Return (), t1))
      else (Return (), t))"

subsection \<open>ScheduleRefreshWork\<close>

text \<open>
  Python slices \<open>xs[:n]\<close> and \<open>xs[n:]\<close>; a negative \<open>n\<close> counts from the end.
\<close>

definition slice_to :: "int \<Rightarrow> 'a list \<Rightarrow> 'a list" where
  "slice_to n xs = (if 0 \<le> n then take (nat n) xs else take (nat (int (length xs) + n)) xs)"

definition slice_from :: "int \<Rightarrow> 'a list \<Rightarrow> 'a list" where
  "slice_from n xs = (if 0 \<le> n then drop (nat n) xs else drop (nat (int (length xs) + n)) xs)"

definition select_attendees :: "txn \<Rightarrow> nat \<Rightarrow> string list" where
  "select_attendees t rid =
     map snd (filter (\<lambda>row. fst row = rid) (SCHEDULE_REFRESH_ATTENDEES t))"

definition insert_attendee :: "nat \<Rightarrow> string \<Rightarrow> txn \<Rightarrow> txn" where
  "insert_attendee rid attendee t =
     emit (Insert_REFRESH_ATTENDEES rid attendee)
       (t\<lparr>SCHEDULE_REFRESH_ATTENDEES := SCHEDULE_REFRESH_ATTENDEES t @ [(rid, attendee)]\<rparr>)"

definition delete_attendees :: "nat \<Rightarrow> string list \<Rightarrow> txn \<Rightarrow> txn" where
  "delete_attendees rid attendeesToProcess t =
     emit (Delete_REFRESH_ATTENDEES rid attendeesToProcess)
       (t\<lparr>SCHEDULE_REFRESH_ATTENDEES :=
            filter (\<lambda>row. \<not> (fst row = rid \<and> snd row \<in> set attendeesToProcess))
              (SCHEDULE_REFRESH_ATTENDEES t)\<rparr>)"

definition insert_RefreshWork :: "nat \<Rightarrow> nat \<Rightarrow> int \<Rightarrow> nat \<Rightarrow> txn \<Rightarrow> txn" where
  "insert_RefreshWork homeResourceID resourceID attendeeCount workID t =
     t\<lparr>SCHEDULE_REFRESH_WORK := SCHEDULE_REFRESH_WORK t @
          [\<lparr>rfw_workID = workID, rfw_homeResourceID = homeResourceID,
            rfw_resourceID = resourceID, rfw_attendeeCount = attendeeCount\<rparr>]\<rparr>"

text \<open>
  refreshAttendees. Iterating over a Python set visits each element once, in an order
  the language does not fix: \<open>set_iter xs\<close> is that iteration over the set of the
  elements of \<open>xs\<close>, a parameter.
\<close>

definition refreshAttendees ::
  "config \<Rightarrow> (string list \<Rightarrow> string list) \<Rightarrow> int \<Rightarrow> CalendarObject \<Rightarrow> string list \<Rightarrow> int \<Rightarrow>
   txn \<Rightarrow> txn" where
  "refreshAttendees cfg set_iter now organizer_resource attendees pause t =
     (let t1 = emit (Select_REFRESH_ATTENDEES (co_id organizer_resource)) t;
          pendingAttendees = select_attendees t1 (co_id organizer_resource);
          attendeesToRefresh = set_iter (filter (\<lambda>a. a \<notin> set pendingAttendees) attendees);
          t2 = fold (insert_attendee (co_id organizer_resource)) attendeesToRefresh t1;
          notBefore = now + AttendeeRefreshBatchDelaySeconds cfg;
          (work, t3) = txn_enqueue ScheduleRefreshWork (co_uid organizer_resource) notBefore pause
                         (insert_RefreshWork (co_home organizer_resource) (co_id organizer_resource)
                            (int (length attendees))) t2
      in emit (Log ''ScheduleRefreshWork - enqueued'') (enqueued t3))"

text \<open>
  _doDelayedRefresh and _doRefresh. The lock key is derived from the resource's UID.
\<close>

definition doDelayedRefresh :: "RefreshWork \<Rightarrow> string list \<Rightarrow> txn \<Rightarrow> unit result \<times> txn" where
  "doDelayedRefresh self attendeesToProcess t =
     (case calendarHomeWithResourceID t (rfw_homeResourceID self) of
        None \<Rightarrow> (Raise AttributeError, t)
      | Some organizer_home \<Rightarrow>
          (case objectResourceWithID t organizer_home (Some (rfw_resourceID self)) of
             Some organizer_resource \<Rightarrow>
               (let t1 = emit (NamedLock_acquire (co_uid organizer_resource)) t;
                    t2 = emit (Log ''ImplicitProcessing - refreshing'') t1
                in (Return (),
                    emit (refreshAllAttendeesExceptSome (co_id organizer_resource) attendeesToProcess) t2))
           | None \<Rightarrow> (Return (), emit (Log ''ImplicitProcessing - skipping refresh of missing ID'') t)))"

text \<open>
  doWork. The first Select has no condition on the work id: any row of
  SCHEDULE_REFRESH_WORK for the item's home and resource makes the item stand back.
  Neither early return calls \<open>_dequeued\<close>. The follow-up item is enqueued only when
  attendees remain after the batch is sliced off.
\<close>

definition ScheduleRefreshWork_doWork ::
  "config \<Rightarrow> (string list \<Rightarrow> string list) \<Rightarrow> int \<Rightarrow> ScheduleWork \<Rightarrow> RefreshWork \<Rightarrow> txn \<Rightarrow>
   unit result \<times> txn" where
  "ScheduleRefreshWork_doWork cfg set_iter now baseWork self t =
     (let rows = filter (\<lambda>w. rfw_homeResourceID w = rfw_homeResourceID self \<and>
                               rfw_resourceID w = rfw_resourceID self) (SCHEDULE_REFRESH_WORK t);
          t1 = emit (Select_REFRESH_WORK (rfw_homeResourceID self) (rfw_resourceID self)) t
      in if rows \<noteq> [] then (Return (), emit (Log ''Schedule refresh - ignored'') t1)
         else
           (let t2 = emit (Log ''ScheduleRefreshWork - running'') t1;
                t3 = emit (Select_REFRESH_ATTENDEES (rfw_resourceID self)) t2;
                pendingAttendees = set_iter (select_attendees t3 (rfw_resourceID self))
            in if length pendingAttendees = 0 then (Return (), t3)
               else
                 (let attendeesToProcess = slice_to (AttendeeRefreshBatch cfg) pendingAttendees;
                      pendingAttendees' = slice_from (AttendeeRefreshBatch cfg) pendingAttendees;
                      t4 = delete_attendees (rfw_resourceID self) attendeesToProcess t3;
                      t5 = (if length pendingAttendees' \<noteq> 0 then
                              (let notBefore = now + AttendeeRefreshBatchIntervalSeconds cfg;
                                   (work, t') = txn_enqueue ScheduleRefreshWork (sw_icalendarUID baseWork)
                                                  notBefore 0
                                                  (insert_RefreshWork (rfw_homeResourceID self)
                                                     (rfw_resourceID self) (int (length pendingAttendees')))
                                                  t4
                               in enqueued t')
                            else t4)
                  in case doDelayedRefresh self attendeesToProcess t5 of
                       (Raise e, t6) \<Rightarrow> (Raise e, t6)
                     | (Return u, t6) \<Rightarrow>
                         (Return u, emit (Log ''ScheduleRefreshWork - done'') (dequeued t6)))))"

subsection \<open>ScheduleAutoReplyWork\<close>

definition insert_AutoReplyWork :: "nat \<Rightarrow> nat \<Rightarrow> string \<Rightarrow> nat \<Rightarrow> txn \<Rightarrow> txn" where
  "insert_AutoReplyWork homeResourceID resourceID partstat workID t =
     t\<lparr>SCHEDULE_AUTO_REPLY_WORK := SCHEDULE_AUTO_REPLY_WORK t @
          [\<lparr>arw_workID = workID, arw_homeResourceID = homeResourceID,
            arw_resourceID = resourceID, arw_partstat = partstat\<rparr>]\<rparr>"

definition autoReply :: "config \<Rightarrow> int \<Rightarrow> CalendarObject \<Rightarrow> string \<Rightarrow> int \<Rightarrow> txn \<Rightarrow> txn" where
  "autoReply cfg now resource partstat pause t =
     (let notBefore = now + AutoReplyDelaySeconds cfg;
          (work, t1) = txn_enqueue ScheduleAutoReplyWork (co_uid resource) notBefore pause
                         (insert_AutoReplyWork (co_home resource) (co_id resource) partstat) t
      in emit (Log ''ScheduleAutoReplyWork - enqueued'') (enqueued t1))"

definition sendAttendeeAutoReply :: "AutoReplyWork \<Rightarrow> txn \<Rightarrow> unit result \<times> txn" where
  "sendAttendeeAutoReply self t =
     (case calendarHomeWithResourceID t (arw_homeResourceID self) of
        None \<Rightarrow> (Raise AttributeError, t)
      | Some home \<Rightarrow>
          (case objectResourceWithID t home (Some (arw_resourceID self)) of
             Some resource \<Rightarrow>
               (let t1 = emit (NamedLock_acquire (co_uid resource)) t;
                    t2 = emit (Log ''ImplicitProcessing - auto-reply'') t1
                in (Return (), emit (sendAttendeeReply (co_id resource)) t2))
           | None \<Rightarrow> (Return (), emit (Log ''ImplicitProcessing - skipping auto-reply of missing ID'') t)))"

definition ScheduleAutoReplyWork_doWork :: "AutoReplyWork \<Rightarrow> txn \<Rightarrow> unit result \<times> txn" where
  "ScheduleAutoReplyWork_doWork self t =
     (let t1 = emit (Log ''ScheduleAutoReplyWork - running'') t;
          t2 = emit (Delete_AUTO_REPLY_WORK (arw_resourceID self))
                 (t1\<lparr>SCHEDULE_AUTO_REPLY_WORK :=
                       filter (\<lambda>w. arw_resourceID w \<noteq> arw_resourceID self)
                         (SCHEDULE_AUTO_REPLY_WORK t1)\<rparr>)
      in case sendAttendeeAutoReply self t2 of
           (Raise e, t3) \<Rightarrow> (Raise e, t3)
         | (Return u, t3) \<Rightarrow> (Return u, emit (Log ''ScheduleAutoReplyWork - done'') (dequeued t3)))"


subsection \<open>Scheduling organizer and reply work\<close>

text \<open>
  A parsed iCalendar object, as far as work.py uses it: its UID and the text that
  \<open>getTextWithTimezones\<close> writes for it. \<open>Component.fromString\<close> belongs to
  twistedcaldav.ical and is the parameter \<open>fromString\<close>; it raises on text it
  cannot parse. A text column that is NULL or empty is the empty string.
\<close>

record ical =
  ical_resourceUID :: string
  ical_text :: string

definition resource_id :: "CalendarObject option \<Rightarrow> nat option" where
  "resource_id resource = (case resource of None \<Rightarrow> None | Some r \<Rightarrow> Some (co_id r))"

definition insert_OrganizerWork ::
  "scheduleAction \<Rightarrow> nat \<Rightarrow> nat option \<Rightarrow> string \<Rightarrow> string \<Rightarrow> int \<Rightarrow> bool \<Rightarrow> nat \<Rightarrow> txn \<Rightarrow> txn" where
  "insert_OrganizerWork action homeResourceID resourceID textOld textNew attendeeCount smartMerge workID t =
     t\<lparr>SCHEDULE_ORGANIZER_WORK := SCHEDULE_ORGANIZER_WORK t @
          [\<lparr>ow_workID = workID, ow_homeResourceID = homeResourceID, ow_resourceID = resourceID,
            ow_scheduleAction = action, ow_icalendarTextOld = textOld,
            ow_icalendarTextNew = textNew, ow_attendeeCount = attendeeCount,
            ow_smartMerge = smartMerge\<rparr>]\<rparr>"

text \<open>
  ScheduleOrganizerWork.schedule, called with the old and new calendar data as text
  (as migrate calls it), for which both \<open>isinstance(..., Component)\<close> tests fail.
\<close>

definition ScheduleOrganizerWork_schedule ::
  "config \<Rightarrow> int \<Rightarrow> string \<Rightarrow> scheduleAction \<Rightarrow> CalendarHome \<Rightarrow> CalendarObject option \<Rightarrow>
   string \<Rightarrow> string \<Rightarrow> int \<Rightarrow> bool \<Rightarrow> int \<Rightarrow> txn \<Rightarrow> txn" where
  "ScheduleOrganizerWork_schedule cfg now uid action home resource calendar_old calendar_new
     attendee_count smart_merge pause t =
     (let notBefore = now + RequestDelaySeconds cfg;
          (work, t1) = txn_enqueue ScheduleOrganizerWork uid notBefore pause
                         (insert_OrganizerWork action (home_id home) (resource_id resource)
                            calendar_old calendar_new attendee_count smart_merge) t
      in emit (Log ''ScheduleOrganizerWork - enqueued'') (enqueued t1))"

definition insert_OrganizerSendWork ::
  "scheduleAction \<Rightarrow> nat \<Rightarrow> nat option \<Rightarrow> string \<Rightarrow> string \<Rightarrow> bool \<Rightarrow> nat \<Rightarrow> txn \<Rightarrow> txn" where
  "insert_OrganizerSendWork action homeResourceID resourceID attendee itipMsg noRefresh workID t =
     t\<lparr>SCHEDULE_ORGANIZER_SEND_WORK := SCHEDULE_ORGANIZER_SEND_WORK t @
          [\<lparr>osw_workID = workID, osw_homeResourceID = homeResourceID, osw_resourceID = resourceID,
            osw_scheduleAction = action, osw_attendee = attendee, osw_itipMsg = itipMsg,
            osw_noRefresh = noRefresh\<rparr>]\<rparr>"

definition ScheduleOrganizerSendWork_schedule ::
  "config \<Rightarrow> int \<Rightarrow> scheduleAction \<Rightarrow> CalendarHome \<Rightarrow> CalendarObject option \<Rightarrow> string \<Rightarrow> ical \<Rightarrow>
   bool \<Rightarrow> int \<Rightarrow> int \<Rightarrow> txn \<Rightarrow> txn" where
  "ScheduleOrganizerSendWork_schedule cfg now action home resource attendee itipmsg no_refresh
     stagger pause t =
     (let notBefore = now + (RequestDelaySeconds cfg + stagger);
          uid = ical_resourceUID itipmsg;
          (work, t1) = txn_enqueue ScheduleOrganizerSendWork uid notBefore pause
                         (insert_OrganizerSendWork action (home_id home) (resource_id resource)
                            attendee (ical_text itipmsg) no_refresh) t
      in emit (Log ''ScheduleOrganizerSendWork - enqueued'') (enqueued t1))"

definition insert_ReplyWork :: "nat \<Rightarrow> nat option \<Rightarrow> string \<Rightarrow> nat \<Rightarrow> txn \<Rightarrow> txn" where
  "insert_ReplyWork homeResourceID resourceID itipMsg workID t =
     t\<lparr>SCHEDULE_REPLY_WORK := SCHEDULE_REPLY_WORK t @
          [\<lparr>rw_workID = workID, rw_homeResourceID = homeResourceID, rw_resourceID = resourceID,
            rw_itipMsg = itipMsg\<rparr>]\<rparr>"

definition ScheduleReplyWork_reply ::
  "config \<Rightarrow> int \<Rightarrow> CalendarHome \<Rightarrow> CalendarObject option \<Rightarrow> ical \<Rightarrow> int \<Rightarrow> txn \<Rightarrow> txn" where
  "ScheduleReplyWork_reply cfg now home resource itipmsg pause t =
     (let notBefore = now + ReplyDelaySeconds cfg;
          uid = ical_resourceUID itipmsg;
          (work, t1) = txn_enqueue ScheduleReplyWork uid notBefore pause
                         (insert_ReplyWork (home_id home) (resource_id resource) (ical_text itipmsg)) t
      in emit (Log ''ScheduleReplyWork - enqueued'') (enqueued t1))"

subsection \<open>migrate\<close>

text \<open>
  \<open>mapIDsCallback(self.resourceID)\<close> is evaluated by the caller: its answer is the
  pair \<open>(new_home, new_resource)\<close>, the resource being None when nothing maps.
  In the send and reply classes the local \<open>itipmsg\<close> is bound only when the stored
  message is not empty, and read afterwards in either case.
\<close>

definition ScheduleOrganizerWork_migrate ::
  "config \<Rightarrow> (string \<Rightarrow> ical result) \<Rightarrow> int \<Rightarrow> OrganizerWork \<Rightarrow>
   CalendarHome \<times> CalendarObject option \<Rightarrow> txn \<Rightarrow> bool result \<times> txn" where
  "ScheduleOrganizerWork_migrate cfg fromString now self mapped t =
     (let (new_home, new_resource) = mapped
      in if ow_resourceID self \<noteq> None \<and> new_resource = None then (Return False, t)
         else
           (case fromString (if ow_icalendarTextOld self \<noteq> [] then ow_icalendarTextOld self
                             else ow_icalendarTextNew self) of
              Raise e \<Rightarrow> (Raise e, t)
            | Return calendar \<Rightarrow>
                (Return True,
                 ScheduleOrganizerWork_schedule cfg now (ical_resourceUID calendar)
                   (ow_scheduleAction self) new_home new_resource
                   (ow_icalendarTextOld self) (ow_icalendarTextNew self)
                   (ow_attendeeCount self) (ow_smartMerge self) 1 t)))"

definition ScheduleOrganizerSendWork_migrate ::
  "config \<Rightarrow> (string \<Rightarrow> ical result) \<Rightarrow> int \<Rightarrow> OrganizerSendWork \<Rightarrow>
   CalendarHome \<times> CalendarObject option \<Rightarrow> txn \<Rightarrow> bool result \<times> txn" where
  "ScheduleOrganizerSendWork_migrate cfg fromString now self mapped t =
     (let (new_home, new_resource) = mapped
      in if osw_resourceID self \<noteq> None \<and> new_resource = None then (Return False, t)
         else
           (case (if osw_itipMsg self \<noteq> [] then fromString (osw_itipMsg self)
                  else Raise UnboundLocalError) of
              Raise e \<Rightarrow> (Raise e, t)
            | Return itipmsg \<Rightarrow>
                (Return True,
                 ScheduleOrganizerSendWork_schedule cfg now (osw_scheduleAction self)
                   new_home new_resource (osw_attendee self) itipmsg (osw_noRefresh self) 0 1 t)))"

definition ScheduleReplyWork_migrate ::
  "config \<Rightarrow> (string \<Rightarrow> ical result) \<Rightarrow> int \<Rightarrow> ReplyWork \<Rightarrow>
   CalendarHome \<times> CalendarObject option \<Rightarrow> txn \<Rightarrow> bool result \<times> txn" where
  "ScheduleReplyWork_migrate cfg fromString now self mapped t =
     (let (new_home, new_resource) = mapped
      in if rw_resourceID self \<noteq> None \<and> new_resource = None then (Return False, t)
         else
           (case (if rw_itipMsg self \<noteq> [] then fromString (rw_itipMsg self)
                  else Raise UnboundLocalError) of
              Raise e \<Rightarrow> (Raise e, t)
            | Return itipmsg \<Rightarrow>
                (Return True, ScheduleReplyWork_reply cfg now new_home new_resource itipmsg 1 t)))"

text \<open>
  ScheduleRefreshWork.migrate reads \<open>self._refreshAttendees\<close>, the attendee list that
  \<open>deserialize\<close> attached to the record.
\<close>

definition ScheduleRefreshWork_migrate ::
  "config \<Rightarrow> (string list \<Rightarrow> string list) \<Rightarrow> int \<Rightarrow> RefreshWork \<Rightarrow> string list \<Rightarrow>
   CalendarHome \<times> CalendarObject option \<Rightarrow> txn \<Rightarrow> bool result \<times> txn" where
  "ScheduleRefreshWork_migrate cfg set_iter now self refreshAttendees_attr mapped t =
     (let (ignore_new_home, new_resource) = mapped
      in case new_resource of
           None \<Rightarrow> (Return False, t)
         | Some r \<Rightarrow> (Return True, refreshAttendees cfg set_iter now r refreshAttendees_attr 1 t))"

definition ScheduleAutoReplyWork_migrate ::
  "config \<Rightarrow> int \<Rightarrow> AutoReplyWork \<Rightarrow> CalendarHome \<times> CalendarObject option \<Rightarrow> txn \<Rightarrow>
   bool result \<times> txn" where
  "ScheduleAutoReplyWork_migrate cfg now self mapped t =
     (let (ignore_new_home, new_resource) = mapped
      in case new_resource of
           None \<Rightarrow> (Return False, t)
         | Some r \<Rightarrow> (Return True, autoReply cfg now r (arw_partstat self) 1 t))"

text \<open>The properties of \<open>ps\<close> after the service-unavailable code is recorded for \<open>results\<close>.\<close>

abbreviation (input) recorded :: "iTIPRequestStatus \<Rightarrow> (string \<times> string) list \<Rightarrow> property list \<Rightarrow> property list" where
  "recorded codes results ps \<equiv>
     map (\<lambda>p. if pvalue p \<in> fst ` set results
               then p\<lparr>SCHEDULE_STATUS := Some (SERVICE_UNAVAILABLE_CODE codes)\<rparr> else p) ps"

subsection \<open>Concrete inputs\<close>

definition codes0 :: iTIPRequestStatus where
  "codes0 = \<lparr>MESSAGE_PENDING_CODE = ''1.0'', MESSAGE_DELIVERED_CODE = ''1.2'',
             SERVICE_UNAVAILABLE_CODE = ''5.1''\<rparr>"

definition cfg0 :: config where
  "cfg0 = \<lparr>RequestDelaySeconds = 5, ReplyDelaySeconds = 1, AutoReplyDelaySeconds = 5,
           AttendeeRefreshBatchDelaySeconds = 5, AttendeeRefreshBatchIntervalSeconds = 5,
           AttendeeRefreshBatch = 5, MaxTemporaryFailures = 10, TemporaryFailureDelay = 60\<rparr>"

definition event0 :: Component where
  "event0 = \<lparr>AttendeeProperties =
               [\<lparr>pvalue = ''mailto:a@example.com'', SCHEDULE_STATUS = None\<rparr>,
                \<lparr>pvalue = ''mailto:b@example.com'', SCHEDULE_STATUS = None\<rparr>],
             OrganizerProperties =
               [\<lparr>pvalue = ''mailto:o@example.com'', SCHEDULE_STATUS = None\<rparr>]\<rparr>"

definition object0 :: CalendarObject where
  "object0 = \<lparr>co_id = 7, co_home = 1, co_uid = ''uid-1'', co_component = event0\<rparr>"

definition home0 :: CalendarHome where
  "home0 = \<lparr>home_id = 1, home_uid = ''user01''\<rparr>"

definition job0 :: "int \<Rightarrow> JobItem" where
  "job0 n = \<lparr>job_jobID = 3, job_workType = ScheduleOrganizerSendWork, job_notBefore = 100,
             job_failed = n, job_pause = 0\<rparr>"

definition base0 :: ScheduleWork where
  "base0 = \<lparr>sw_workID = 4, sw_jobID = 3, sw_icalendarUID = ''uid-1'',
            sw_workType = ScheduleOrganizerSendWork\<rparr>"

definition send0 :: OrganizerSendWork where
  "send0 = \<lparr>osw_workID = 4, osw_homeResourceID = 1, osw_resourceID = Some 7,
            osw_scheduleAction = modify, osw_attendee = ''mailto:a@example.com'',
            osw_itipMsg = ''BEGIN:VCALENDAR'', osw_noRefresh = False\<rparr>"

definition reply0 :: ReplyWork where
  "reply0 = \<lparr>rw_workID = 4, rw_homeResourceID = 1, rw_resourceID = Some 7,
             rw_itipMsg = ''BEGIN:VCALENDAR''\<rparr>"

definition empty_txn :: txn where
  "empty_txn = \<lparr>JOB = [], SCHEDULE_WORK = [], SCHEDULE_ORGANIZER_WORK = [],
                SCHEDULE_ORGANIZER_SEND_WORK = [], SCHEDULE_REPLY_WORK = [],
                SCHEDULE_REFRESH_WORK = [], SCHEDULE_REFRESH_ATTENDEES = [],
                SCHEDULE_AUTO_REPLY_WORK = [], CALENDAR_HOME = [home0],
                CALENDAR_OBJECT = [object0], JOB_SEQ = 10, WORKITEM_SEQ = 10,
                queued = 1, allDoneCallback = False, events = []\<rparr>"

definition txn0 :: "int \<Rightarrow> txn" where
  "txn0 n = empty_txn\<lparr>JOB := [job0 n], SCHEDULE_WORK := [base0]\<rparr>"


definition baseR :: ScheduleWork where
  "baseR = \<lparr>sw_workID = 4, sw_jobID = 3, sw_icalendarUID = ''uid-1'',
            sw_workType = ScheduleRefreshWork\<rparr>"

definition refresh0 :: RefreshWork where
  "refresh0 = \<lparr>rfw_workID = 4, rfw_homeResourceID = 1, rfw_resourceID = 7,
               rfw_attendeeCount = 2\<rparr>"

definition refresh_later :: RefreshWork where
  "refresh_later = \<lparr>rfw_workID = 6, rfw_homeResourceID = 1, rfw_resourceID = 7,
                    rfw_attendeeCount = 1\<rparr>"

definition auto0 :: AutoReplyWork where
  "auto0 = \<lparr>arw_workID = 4, arw_homeResourceID = 1, arw_resourceID = 7,
            arw_partstat = ''ACCEPTED''\<rparr>"

definition auto_other :: AutoReplyWork where
  "auto_other = \<lparr>arw_workID = 6, arw_homeResourceID = 1, arw_resourceID = 7,
                 arw_partstat = ''DECLINED''\<rparr>"

definition auto_elsewhere :: AutoReplyWork where
  "auto_elsewhere = \<lparr>arw_workID = 8, arw_homeResourceID = 1, arw_resourceID = 9,
                     arw_partstat = ''ACCEPTED''\<rparr>"

text \<open>
  The events that are a lock acquisition, a scheduling send or a write of calendar data.
\<close>

definition lock_send_or_write :: "event \<Rightarrow> bool" where
  "lock_send_or_write e =
     (case e of
        NamedLock_acquire _ \<Rightarrow> True
      | baseWork_trylock _ _ \<Rightarrow> True
      | self_trylock _ _ \<Rightarrow> True
      | queuedOrganizerProcessing _ \<Rightarrow> True
      | queuedOrganizerSending _ _ \<Rightarrow> True
      | doSchedulingViaPUT _ \<Rightarrow> True
      | refreshAllAttendeesExceptSome _ _ \<Rightarrow> True
      | sendAttendeeReply _ \<Rightarrow> True
      | setComponentInternal _ \<Rightarrow> True
      | _ \<Rightarrow> False)"

definition sibling0 :: ScheduleWork where
  "sibling0 = \<lparr>sw_workID = 6, sw_jobID = 5, sw_icalendarUID = ''uid-1'',
               sw_workType = ScheduleOrganizerSendWork\<rparr>"

definition sibling1 :: ScheduleWork where
  "sibling1 = \<lparr>sw_workID = 9, sw_jobID = 8, sw_icalendarUID = ''uid-1'',
               sw_workType = ScheduleOrganizerSendWork\<rparr>"

definition job5 :: JobItem where
  "job5 = \<lparr>job_jobID = 5, job_workType = ScheduleOrganizerSendWork, job_notBefore = 500,
            job_failed = 0, job_pause = 0\<rparr>"

definition job8 :: JobItem where
  "job8 = \<lparr>job_jobID = 8, job_workType = ScheduleOrganizerSendWork, job_notBefore = 900,
            job_failed = 0, job_pause = 0\<rparr>"

definition txn_siblings :: txn where
  "txn_siblings = empty_txn\<lparr>JOB := [job0 0, job8, job5],
                            SCHEDULE_WORK := [sibling1, base0, sibling0]\<rparr>"

text \<open>The events that are a call of \<open>sendAttendeeReply\<close>.\<close>

definition is_sendAttendeeReply :: "event \<Rightarrow> bool" where
  "is_sendAttendeeReply e = (case e of sendAttendeeReply _ \<Rightarrow> True | _ \<Rightarrow> False)"

definition organizer0 :: OrganizerWork where
  "organizer0 = \<lparr>ow_workID = 4, ow_homeResourceID = 1, ow_resourceID = None,
                 ow_scheduleAction = create, ow_icalendarTextOld = [],
                 ow_icalendarTextNew = ''BEGIN:VCALENDAR'', ow_attendeeCount = 2,
                 ow_smartMerge = False\<rparr>"

definition home1 :: CalendarHome where
  "home1 = \<lparr>home_id = 21, home_uid = ''user01''\<rparr>"

definition object1 :: CalendarObject where
  "object1 = \<lparr>co_id = 27, co_home = 21, co_uid = ''uid-1'', co_component = event0\<rparr>"

text \<open>A parser for the concrete inputs: every text is the object with UID uid-1.\<close>

definition fromString0 :: "string \<Rightarrow> ical result" where
  "fromString0 text = Return \<lparr>ical_resourceUID = ''uid-1'', ical_text = text\<rparr>"

definition txn_two_pending :: txn where
  "txn_two_pending = empty_txn\<lparr>SCHEDULE_REFRESH_ATTENDEES :=
      [(7, ''mailto:a''), (7, ''mailto:b''), (7, ''mailto:a'')]\<rparr>"

section \<open>Properties\<close>

subsection \<open>Frame lemmas of the event log and the dequeue hook\<close>


lemma emit_simps [simp]:
  "JOB (emit e t) = JOB t"
  "SCHEDULE_WORK (emit e t) = SCHEDULE_WORK t"
  "SCHEDULE_ORGANIZER_WORK (emit e t) = SCHEDULE_ORGANIZER_WORK t"
  "SCHEDULE_ORGANIZER_SEND_WORK (emit e t) = SCHEDULE_ORGANIZER_SEND_WORK t"
  "SCHEDULE_REPLY_WORK (emit e t) = SCHEDULE_REPLY_WORK t"
  "SCHEDULE_REFRESH_WORK (emit e t) = SCHEDULE_REFRESH_WORK t"
  "SCHEDULE_REFRESH_ATTENDEES (emit e t) = SCHEDULE_REFRESH_ATTENDEES t"
  "SCHEDULE_AUTO_REPLY_WORK (emit e t) = SCHEDULE_AUTO_REPLY_WORK t"
  "CALENDAR_HOME (emit e t) = CALENDAR_HOME t"
  "CALENDAR_OBJECT (emit e t) = CALENDAR_OBJECT t"
  "queued (emit e t) = queued t"
  "allDoneCallback (emit e t) = allDoneCallback t"
  "events (emit e t) = events t @ [e]"
  by (simp_all add: emit_def)

lemma JobItem_load_emit [simp]: "JobItem_load (emit e t) jid = JobItem_load t jid"
  by (simp add: JobItem_load_def)

lemma calendarHome_emit [simp]:
  "calendarHomeWithResourceID (emit e t) hid = calendarHomeWithResourceID t hid"
  by (simp add: calendarHomeWithResourceID_def)

lemma objectResource_emit [simp]:
  "objectResourceWithID (emit e t) home rid = objectResourceWithID t home rid"
  by (simp add: objectResourceWithID_def split: option.splits)

lemma dequeued_tables [simp]:
  "JOB (dequeued t) = JOB t"
  "SCHEDULE_WORK (dequeued t) = SCHEDULE_WORK t"
  "SCHEDULE_REFRESH_WORK (dequeued t) = SCHEDULE_REFRESH_WORK t"
  "SCHEDULE_REFRESH_ATTENDEES (dequeued t) = SCHEDULE_REFRESH_ATTENDEES t"
  "SCHEDULE_AUTO_REPLY_WORK (dequeued t) = SCHEDULE_AUTO_REPLY_WORK t"
  "CALENDAR_HOME (dequeued t) = CALENDAR_HOME t"
  "CALENDAR_OBJECT (dequeued t) = CALENDAR_OBJECT t"
  by (simp_all add: dequeued_def Let_def)

lemma dequeued_events:
  "events (dequeued t) =
     events t @ (if queued t = 1 \<and> allDoneCallback t then [postCommit_allDone] else [])"
  by (simp add: dequeued_def Let_def)

lemma handle_loop_const:
  "list_all (\<lambda>r. snd r = c) resp \<Longrightarrow> c \<noteq> MESSAGE_DELIVERED_CODE codes \<Longrightarrow>
   handle_loop codes resp ps ch =
     (ch \<or> list_ex (\<lambda>p. pvalue p \<in> fst ` set resp) ps,
      map (\<lambda>p. if pvalue p \<in> fst ` set resp then p\<lparr>SCHEDULE_STATUS := Some c\<rparr> else p) ps)"
proof (induction resp arbitrary: ps ch)
  case Nil
  then show ?case by (simp add: list_ex_iff)
next
  case (Cons r resp)
  obtain a b where r: "r = (a, b)" by (cases r)
  from Cons.prems r have b: "b = c" and rest: "list_all (\<lambda>r. snd r = c) resp" by simp_all
  show ?case
    using Cons.IH [OF rest Cons.prems(2)] Cons.prems(2)
    by (auto simp add: r b setParameter_matching_def list_ex_iff o_def)
qed

lemma checkTemporaryFailure_retry:
  assumes "list_all (\<lambda>r. snd r = MESSAGE_PENDING_CODE codes) results"
    and "JobItem_load t jobID = Return job"
    and "job_failed job < MaxTemporaryFailures cfg"
  shows "checkTemporaryFailure cfg codes t jobID results =
           Raise (JobTemporaryError (TemporaryFailureDelay cfg))"
  using assms by (simp add: checkTemporaryFailure_def)

lemma checkTemporaryFailure_giveup:
  assumes "list_all (\<lambda>r. snd r = MESSAGE_PENDING_CODE codes) results"
    and "JobItem_load t jobID = Return job"
    and "MaxTemporaryFailures cfg \<le> job_failed job"
  shows "checkTemporaryFailure cfg codes t jobID results =
           Return (map (\<lambda>r. (fst r, SERVICE_UNAVAILABLE_CODE codes)) results)"
  using assms by (simp add: checkTemporaryFailure_def)

lemma processResponses_retry:
  assumes "extractSchedulingResponse codes qr = (results, False)"
    and "list_all (\<lambda>r. snd r = MESSAGE_PENDING_CODE codes) results"
    and "JobItem_load t jobID = Return job"
    and "job_failed job < MaxTemporaryFailures cfg"
  shows "processResponses cfg codes jobID io (Some res) qr t =
           (Raise (JobTemporaryError (TemporaryFailureDelay cfg)), t)"
  using assms(1) checkTemporaryFailure_retry [OF assms(2-4)]
  by (simp add: processResponses_def)

lemma handle_unavailable:
  assumes "SERVICE_UNAVAILABLE_CODE codes \<noteq> MESSAGE_DELIVERED_CODE codes"
  shows "handle_loop codes (map (\<lambda>r. (fst r, SERVICE_UNAVAILABLE_CODE codes)) results) ps False =
     (list_ex (\<lambda>p. pvalue p \<in> fst ` set results) ps, recorded codes results ps)"
proof -
  have a: "list_all (\<lambda>r. snd r = SERVICE_UNAVAILABLE_CODE codes)
             (map (\<lambda>r. (fst r, SERVICE_UNAVAILABLE_CODE codes)) results)"
    by (simp add: list_all_iff)
  have b: "fst ` set (map (\<lambda>r. (fst r, SERVICE_UNAVAILABLE_CODE codes)) results) = fst ` set results"
    by (simp add: image_image)
  show ?thesis
    using handle_loop_const [OF a assms, of ps False] by (simp only: b) simp
qed

lemma processResponses_giveup:
  assumes "extractSchedulingResponse codes qr = (results, False)"
    and "list_all (\<lambda>r. snd r = MESSAGE_PENDING_CODE codes) results"
    and "JobItem_load t jobID = Return job"
    and "MaxTemporaryFailures cfg \<le> job_failed job"
    and "SERVICE_UNAVAILABLE_CODE codes \<noteq> MESSAGE_DELIVERED_CODE codes"
  shows "processResponses cfg codes jobID True (Some res) qr t =
           (Return (),
            dequeued (if list_ex (\<lambda>p. pvalue p \<in> fst ` set results) (AttendeeProperties (co_component res))
                      then setComponentInternal_store res
                             ((co_component res)\<lparr>AttendeeProperties :=
                                recorded codes results (AttendeeProperties (co_component res))\<rparr>) t
                      else t))"
    and "processResponses cfg codes jobID False (Some res) qr t =
           (Return (),
            dequeued (if list_ex (\<lambda>p. pvalue p \<in> fst ` set results) (OrganizerProperties (co_component res))
                      then setComponentInternal_store res
                             ((co_component res)\<lparr>OrganizerProperties :=
                                recorded codes results (OrganizerProperties (co_component res))\<rparr>) t
                      else t))"
  using assms(1) checkTemporaryFailure_giveup [OF assms(2-4)] handle_unavailable [OF assms(5)]
  by (simp_all add: processResponses_def handleSchedulingResponse_def Let_def)


lemma send_doWork_pending:
  assumes "extractSchedulingResponse codes (sched_queuedResponses sched) = (results, False)"
    and "list_all (\<lambda>r. snd r = MESSAGE_PENDING_CODE codes) results"
    and "JobItem_load t (sw_jobID baseWork) = Return job"
    and "calendarHomeWithResourceID t (osw_homeResourceID self) = Some home"
    and "sched_resource sched = Some res"
    and "SERVICE_UNAVAILABLE_CODE codes \<noteq> MESSAGE_DELIVERED_CODE codes"
    and "t3 = emit (queuedOrganizerSending (sw_icalendarUID baseWork) (osw_attendee self))
                (emit (NamedLock_acquire (sw_icalendarUID baseWork))
                   (emit (Log ''ScheduleOrganizerSendWork - running'') t))"
  shows "ScheduleOrganizerSendWork_doWork cfg codes baseWork self sched t =
     (if job_failed job < MaxTemporaryFailures cfg
      then (Raise (JobTemporaryError (TemporaryFailureDelay cfg)),
            emit (Log ''ScheduleOrganizerSendWork - exception'') t3)
      else (Return (), emit (Log ''ScheduleOrganizerSendWork - done'')
              (dequeued (if list_ex (\<lambda>p. pvalue p \<in> fst ` set results) (AttendeeProperties (co_component res))
                      then setComponentInternal_store res
                             ((co_component res)\<lparr>AttendeeProperties :=
                                recorded codes results (AttendeeProperties (co_component res))\<rparr>) t3
                      else t3))))"
proof -
  have j: "JobItem_load t3 (sw_jobID baseWork) = Return job"
    using assms(3) by (simp add: assms(7))
  show ?thesis
  proof (cases "job_failed job < MaxTemporaryFailures cfg")
    case True
    show ?thesis
      using processResponses_retry [OF assms(1,2) j True, of True res] True assms(4,5)
      by (simp add: ScheduleOrganizerSendWork_doWork_def assms(7) Let_def)
  next
    case False
    then have ge: "MaxTemporaryFailures cfg \<le> job_failed job" by simp
    show ?thesis
      using processResponses_giveup(1) [OF assms(1,2) j ge assms(6), of res] False assms(4,5)
      by (simp add: ScheduleOrganizerSendWork_doWork_def assms(7) Let_def)
  qed
qed

lemma reply_doWork_pending:
  assumes "extractSchedulingResponse codes [response] = (results, False)"
    and "list_all (\<lambda>r. snd r = MESSAGE_PENDING_CODE codes) results"
    and "JobItem_load t (sw_jobID baseWork) = Return job"
    and "calendarHomeWithResourceID t (rw_homeResourceID self) = Some home"
    and "objectResourceWithID t home (rw_resourceID self) = Some res"
    and "SERVICE_UNAVAILABLE_CODE codes \<noteq> MESSAGE_DELIVERED_CODE codes"
    and "t3 = emit (doSchedulingViaPUT (sw_icalendarUID baseWork))
                (emit (NamedLock_acquire (sw_icalendarUID baseWork))
                   (emit (Log ''ScheduleReplyWork - running'') t))"
  shows "ScheduleReplyWork_doWork cfg codes baseWork self response t =
     (if job_failed job < MaxTemporaryFailures cfg
      then (Raise (JobTemporaryError (TemporaryFailureDelay cfg)),
            emit (Log ''ScheduleReplyWork - exception'') t3)
      else (Return (), emit (Log ''ScheduleReplyWork - done'')
              (dequeued (if list_ex (\<lambda>p. pvalue p \<in> fst ` set results) (OrganizerProperties (co_component res))
                      then setComponentInternal_store res
                             ((co_component res)\<lparr>OrganizerProperties :=
                                recorded codes results (OrganizerProperties (co_component res))\<rparr>) t3
                      else t3))))"
proof -
  have j: "JobItem_load t3 (sw_jobID baseWork) = Return job"
    using assms(3) by (simp add: assms(7))
  show ?thesis
  proof (cases "job_failed job < MaxTemporaryFailures cfg")
    case True
    show ?thesis
      using processResponses_retry [OF assms(1,2) j True, of False res] True assms(4,5)
      by (simp add: ScheduleReplyWork_doWork_def assms(7) Let_def)
  next
    case False
    then have ge: "MaxTemporaryFailures cfg \<le> job_failed job" by simp
    show ?thesis
      using processResponses_giveup(2) [OF assms(1,2) j ge assms(6), of res] False assms(4,5)
      by (simp add: ScheduleReplyWork_doWork_def assms(7) Let_def)
  qed
qed



subsection \<open>Retry policy\<close>

text \<open>
  C1 (as amended). An Organizer-Send or Attendee-Reply item runs with a resource to
  update and its extracted results are not all delivered. If every extracted result,
  delivered ones included, carries the pending code, then: with the job's failure count
  below MaxTemporaryFailures, checkTemporaryFailure raises JobTemporaryError with
  TemporaryFailureDelay, doWork raises it, and the calendar objects are left as they
  were, with no call of \<open>_setComponentInternal\<close>; with the failure count at or above
  the maximum, every result is rewritten to the service-unavailable code, doWork
  returns, and each ATTENDEE (for the organizer's send) or ORGANIZER (for the reply)
  property whose value is one of the recipients gets that code as SCHEDULE-STATUS,
  the object being written exactly when there is such a property.
\<close>


theorem retry_policy_all_results_pending:
  assumes "extractSchedulingResponse codes (sched_queuedResponses sched) = (results, False)"
    and "list_all (\<lambda>r. snd r = MESSAGE_PENDING_CODE codes) results"
    and "calendarHomeWithResourceID t (osw_homeResourceID self) = Some home"
    and "sched_resource sched = Some res"
    and "extractSchedulingResponse codes [response] = (results', False)"
    and "list_all (\<lambda>r. snd r = MESSAGE_PENDING_CODE codes) results'"
    and "calendarHomeWithResourceID t (rw_homeResourceID self') = Some home'"
    and "objectResourceWithID t home' (rw_resourceID self') = Some res'"
    and "JobItem_load t (sw_jobID baseWork) = Return job"
    and "SERVICE_UNAVAILABLE_CODE codes \<noteq> MESSAGE_DELIVERED_CODE codes"
    and "rs = ScheduleOrganizerSendWork_doWork cfg codes baseWork self sched t"
    and "rr = ScheduleReplyWork_doWork cfg codes baseWork self' response t"
    and "retry = (job_failed job < MaxTemporaryFailures cfg)"
  shows "checkTemporaryFailure cfg codes t (sw_jobID baseWork) results =
           (if retry then Raise (JobTemporaryError (TemporaryFailureDelay cfg))
            else Return (map (\<lambda>r. (fst r, SERVICE_UNAVAILABLE_CODE codes)) results))
       \<and> fst rs = (if retry then Raise (JobTemporaryError (TemporaryFailureDelay cfg)) else Return ())
       \<and> fst rr = (if retry then Raise (JobTemporaryError (TemporaryFailureDelay cfg)) else Return ())
       \<and> CALENDAR_OBJECT (snd rs) =
           (if \<not> retry \<and> list_ex (\<lambda>p. pvalue p \<in> fst ` set results) (AttendeeProperties (co_component res))
            then map (\<lambda>c. if co_id c = co_id res
                           then c\<lparr>co_component := (co_component res)\<lparr>AttendeeProperties :=
                                   recorded codes results (AttendeeProperties (co_component res))\<rparr>\<rparr>
                           else c) (CALENDAR_OBJECT t)
            else CALENDAR_OBJECT t)
       \<and> CALENDAR_OBJECT (snd rr) =
           (if \<not> retry \<and> list_ex (\<lambda>p. pvalue p \<in> fst ` set results') (OrganizerProperties (co_component res'))
            then map (\<lambda>c. if co_id c = co_id res'
                           then c\<lparr>co_component := (co_component res')\<lparr>OrganizerProperties :=
                                   recorded codes results' (OrganizerProperties (co_component res'))\<rparr>\<rparr>
                           else c) (CALENDAR_OBJECT t)
            else CALENDAR_OBJECT t)
       \<and> (setComponentInternal (co_id res) \<in> set (drop (length (events t)) (events (snd rs)))) =
           (\<not> retry \<and> list_ex (\<lambda>p. pvalue p \<in> fst ` set results) (AttendeeProperties (co_component res)))
       \<and> (setComponentInternal (co_id res') \<in> set (drop (length (events t)) (events (snd rr)))) =
           (\<not> retry \<and> list_ex (\<lambda>p. pvalue p \<in> fst ` set results') (OrganizerProperties (co_component res')))"
proof -
  note s = send_doWork_pending [OF assms(1,2,9,3,4,10) refl, of cfg]
  note r = reply_doWork_pending [OF assms(5,6,9,7,8,10) refl, of cfg]
  have c: "checkTemporaryFailure cfg codes t (sw_jobID baseWork) results =
           (if retry then Raise (JobTemporaryError (TemporaryFailureDelay cfg))
            else Return (map (\<lambda>r. (fst r, SERVICE_UNAVAILABLE_CODE codes)) results))"
    using assms(2,9) by (simp add: checkTemporaryFailure_def assms(13))
  have s1: "fst rs = (if retry then Raise (JobTemporaryError (TemporaryFailureDelay cfg)) else Return ())"
    by (simp add: assms(11,13) s)
  have r1: "fst rr = (if retry then Raise (JobTemporaryError (TemporaryFailureDelay cfg)) else Return ())"
    by (simp add: assms(12,13) r)
  have s2: "CALENDAR_OBJECT (snd rs) =
           (if \<not> retry \<and> list_ex (\<lambda>p. pvalue p \<in> fst ` set results) (AttendeeProperties (co_component res))
            then map (\<lambda>c. if co_id c = co_id res
                           then c\<lparr>co_component := (co_component res)\<lparr>AttendeeProperties :=
                                   recorded codes results (AttendeeProperties (co_component res))\<rparr>\<rparr>
                           else c) (CALENDAR_OBJECT t)
            else CALENDAR_OBJECT t)"
    by (simp add: assms(11,13) s setComponentInternal_store_def)
  have r2: "CALENDAR_OBJECT (snd rr) =
           (if \<not> retry \<and> list_ex (\<lambda>p. pvalue p \<in> fst ` set results') (OrganizerProperties (co_component res'))
            then map (\<lambda>c. if co_id c = co_id res'
                           then c\<lparr>co_component := (co_component res')\<lparr>OrganizerProperties :=
                                   recorded codes results' (OrganizerProperties (co_component res'))\<rparr>\<rparr>
                           else c) (CALENDAR_OBJECT t)
            else CALENDAR_OBJECT t)"
    by (simp add: assms(12,13) r setComponentInternal_store_def)
  have s3: "(setComponentInternal (co_id res) \<in> set (drop (length (events t)) (events (snd rs)))) =
           (\<not> retry \<and> list_ex (\<lambda>p. pvalue p \<in> fst ` set results) (AttendeeProperties (co_component res)))"
    by (simp add: assms(11,13) s setComponentInternal_store_def dequeued_events)
  have r3: "(setComponentInternal (co_id res') \<in> set (drop (length (events t)) (events (snd rr)))) =
           (\<not> retry \<and> list_ex (\<lambda>p. pvalue p \<in> fst ` set results') (OrganizerProperties (co_component res')))"
    by (simp add: assms(12,13) r setComponentInternal_store_def dequeued_events)
  from c s1 r1 s2 r2 s3 r3 show ?thesis by (intro conjI)
qed




lemmas ex_defs = codes0_def cfg0_def event0_def object0_def home0_def job0_def base0_def
  send0_def reply0_def empty_txn_def txn0_def

theorem retry_policy_all_results_pending_witness:
  "fst (ScheduleOrganizerSendWork_doWork cfg0 codes0 base0 send0
          \<lparr>sched_resource = Some object0,
           sched_queuedResponses = [[(''mailto:a@example.com'', ''1.0;Pending'')]]\<rparr> (txn0 10))
     = Return ()
   \<and> map co_component (CALENDAR_OBJECT (snd (ScheduleOrganizerSendWork_doWork cfg0 codes0 base0 send0
          \<lparr>sched_resource = Some object0,
           sched_queuedResponses = [[(''mailto:a@example.com'', ''1.0;Pending'')]]\<rparr> (txn0 10))))
     = [event0\<lparr>AttendeeProperties :=
                 [\<lparr>pvalue = ''mailto:a@example.com'', SCHEDULE_STATUS = Some ''5.1''\<rparr>,
                  \<lparr>pvalue = ''mailto:b@example.com'', SCHEDULE_STATUS = None\<rparr>]\<rparr>]
   \<and> fst (ScheduleReplyWork_doWork cfg0 codes0 base0 reply0
          [(''mailto:o@example.com'', ''1.0;Pending'')] (txn0 10))
     = Return ()
   \<and> fst (ScheduleOrganizerSendWork_doWork cfg0 codes0 base0 send0
          \<lparr>sched_resource = Some object0,
           sched_queuedResponses = [[(''mailto:a@example.com'', ''1.0;Pending'')]]\<rparr> (txn0 0))
     = Raise (JobTemporaryError 60)
   \<and> CALENDAR_OBJECT (snd (ScheduleOrganizerSendWork_doWork cfg0 codes0 base0 send0
          \<lparr>sched_resource = Some object0,
           sched_queuedResponses = [[(''mailto:a@example.com'', ''1.0;Pending'')]]\<rparr> (txn0 0)))
     = [object0]"
proof -
  let ?sched = "\<lparr>sched_resource = Some object0,
                  sched_queuedResponses = [[(''mailto:a@example.com'', ''1.0;Pending'')]]\<rparr>"
  have h1: "extractSchedulingResponse codes0 (sched_queuedResponses ?sched)
              = ([(''mailto:a@example.com'', ''1.0'')], False)"
    by (simp add: extractSchedulingResponse_def statusCode_of_def codes0_def)
  have h2: "list_all (\<lambda>r. snd r = MESSAGE_PENDING_CODE codes0) [(''mailto:a@example.com'', ''1.0'')]"
    by (simp add: codes0_def)
  have h3: "calendarHomeWithResourceID (txn0 n) (osw_homeResourceID send0) = Some home0" for n
    by (simp add: calendarHomeWithResourceID_def ex_defs)
  have h4: "sched_resource ?sched = Some object0" by simp
  have h5: "extractSchedulingResponse codes0 [[(''mailto:o@example.com'', ''1.0;Pending'')]]
              = ([(''mailto:o@example.com'', ''1.0'')], False)"
    by (simp add: extractSchedulingResponse_def statusCode_of_def codes0_def)
  have h6: "list_all (\<lambda>r. snd r = MESSAGE_PENDING_CODE codes0) [(''mailto:o@example.com'', ''1.0'')]"
    by (simp add: codes0_def)
  have h7: "calendarHomeWithResourceID (txn0 n) (rw_homeResourceID reply0) = Some home0" for n
    by (simp add: calendarHomeWithResourceID_def ex_defs)
  have h8: "objectResourceWithID (txn0 n) home0 (rw_resourceID reply0) = Some object0" for n
    by (simp add: objectResourceWithID_def ex_defs)
  have h9: "JobItem_load (txn0 n) (sw_jobID base0) = Return (job0 n)" for n
    by (simp add: JobItem_load_def ex_defs)
  have h10: "SERVICE_UNAVAILABLE_CODE codes0 \<noteq> MESSAGE_DELIVERED_CODE codes0"
    by (simp add: codes0_def)
  have h13: "False = (job_failed (job0 10) < MaxTemporaryFailures cfg0)"
    by (simp add: ex_defs)
  have h14: "True = (job_failed (job0 0) < MaxTemporaryFailures cfg0)"
    by (simp add: ex_defs)
  note w = retry_policy_all_results_pending [OF h1 h2 h3 h4 h5 h6 h7 h8 h9 h10 refl refl h13]
  note w' = retry_policy_all_results_pending [OF h1 h2 h3 h4 h5 h6 h7 h8 h9 h10 refl refl h14]
  from w w' show ?thesis by (simp add: ex_defs)
qed

theorem non_delivered_pending_counterexample:
  "extractSchedulingResponse codes0
     [[(''mailto:a@example.com'', ''1.2;Delivered''), (''mailto:b@example.com'', ''1.0;Pending'')]]
     = ([(''mailto:a@example.com'', ''1.2''), (''mailto:b@example.com'', ''1.0'')], False)
   \<and> filter (\<lambda>r. snd r \<noteq> MESSAGE_DELIVERED_CODE codes0)
        [(''mailto:a@example.com'', ''1.2''), (''mailto:b@example.com'', ''1.0'')]
     = [(''mailto:b@example.com'', MESSAGE_PENDING_CODE codes0)]
   \<and> JobItem_load (txn0 0) (sw_jobID base0) = Return (job0 0)
   \<and> job_failed (job0 0) < MaxTemporaryFailures cfg0
   \<and> checkTemporaryFailure cfg0 codes0 (txn0 0) (sw_jobID base0)
        [(''mailto:a@example.com'', ''1.2''), (''mailto:b@example.com'', ''1.0'')]
     = Return [(''mailto:a@example.com'', ''1.2''), (''mailto:b@example.com'', ''1.0'')]
   \<and> fst (ScheduleOrganizerSendWork_doWork cfg0 codes0 base0 send0
          \<lparr>sched_resource = Some object0,
           sched_queuedResponses =
             [[(''mailto:a@example.com'', ''1.2;Delivered''),
               (''mailto:b@example.com'', ''1.0;Pending'')]]\<rparr> (txn0 0))
     = Return ()
   \<and> events (snd (ScheduleOrganizerSendWork_doWork cfg0 codes0 base0 send0
          \<lparr>sched_resource = Some object0,
           sched_queuedResponses =
             [[(''mailto:a@example.com'', ''1.2;Delivered''),
               (''mailto:b@example.com'', ''1.0;Pending'')]]\<rparr> (txn0 0)))
     = [Log ''ScheduleOrganizerSendWork - running'', NamedLock_acquire ''uid-1'',
        queuedOrganizerSending ''uid-1'' ''mailto:a@example.com'', setComponentInternal 7,
        Log ''ScheduleOrganizerSendWork - done'']"
  by (simp add: ex_defs extractSchedulingResponse_def statusCode_of_def JobItem_load_def
      checkTemporaryFailure_def ScheduleOrganizerSendWork_doWork_def processResponses_def
      calendarHomeWithResourceID_def handleSchedulingResponse_def setParameter_matching_def
      setComponentInternal_store_def dequeued_def emit_def Let_def)


subsection \<open>Locking\<close>

text \<open>
  runlock first attempts the group lock over the SCHEDULE_WORK rows of the item's UID;
  it attempts the lock on the item's own row only after the group attempt succeeded;
  each attempt is a trylock that answers at once, and runlock returns False when the
  group attempt failed and True when both attempts succeeded.
\<close>

lemma runlock_group_then_row:
  "events (snd (runlock icalendarUID workID group_ok row_ok t)) =
     events t @ (if group_ok then [baseWork_trylock icalendarUID True, self_trylock workID row_ok]
                 else [baseWork_trylock icalendarUID False])
   \<and> fst (runlock icalendarUID workID False row_ok t) = False
   \<and> fst (runlock icalendarUID workID True True t) = True"
  by (simp add: runlock_def Let_def)

text \<open>
  C8. The docstring of runlock promises True if the work item was locked and False if
  not. With the group locked and the attempt on the item's own row refused, the item
  is not locked, and runlock returns True: the answer of \<open>self.trylock()\<close> is dropped.
\<close>

theorem runlock_returns_True_when_row_lock_refused:
  "runlock ''uid-1'' 4 True False empty_txn =
     (True, empty_txn\<lparr>events := [baseWork_trylock ''uid-1'' True, self_trylock 4 False]\<rparr>)"
  by (simp add: runlock_def Let_def emit_def empty_txn_def)

subsection \<open>Refresh batching\<close>

text \<open>
  C3. When another SCHEDULE_REFRESH_WORK row exists for the item's home and resource,
  doWork returns at once: the transaction is unchanged except for the log of the one
  query on SCHEDULE_REFRESH_WORK and the "ignored" message, so no pending attendee is
  read or deleted, nothing is sent and nothing is enqueued.
\<close>

theorem refresh_superseded_is_noop:
  assumes "list_ex (\<lambda>w. rfw_homeResourceID w = rfw_homeResourceID self \<and>
                        rfw_resourceID w = rfw_resourceID self \<and>
                        rfw_workID w \<noteq> rfw_workID self) (SCHEDULE_REFRESH_WORK t)"
  shows "ScheduleRefreshWork_doWork cfg set_iter now baseWork self t =
           (Return (),
            t\<lparr>events := events t @
                 [Select_REFRESH_WORK (rfw_homeResourceID self) (rfw_resourceID self),
                  Log ''Schedule refresh - ignored'']\<rparr>)"
proof -
  from assms have "filter (\<lambda>w. rfw_homeResourceID w = rfw_homeResourceID self \<and>
                       rfw_resourceID w = rfw_resourceID self) (SCHEDULE_REFRESH_WORK t) \<noteq> []"
    by (auto simp add: list_ex_iff filter_empty_conv)
  then show ?thesis
    by (simp add: ScheduleRefreshWork_doWork_def Let_def emit_def)
qed


theorem refresh_superseded_is_noop_witness:
  "ScheduleRefreshWork_doWork cfg0 remdups 100 baseR refresh0
     (empty_txn\<lparr>SCHEDULE_REFRESH_WORK := [refresh_later],
                 SCHEDULE_REFRESH_ATTENDEES := [(7, ''mailto:a@example.com'')]\<rparr>) =
     (Return (),
      empty_txn\<lparr>SCHEDULE_REFRESH_WORK := [refresh_later],
                 SCHEDULE_REFRESH_ATTENDEES := [(7, ''mailto:a@example.com'')],
                 events := [Select_REFRESH_WORK 1 7, Log ''Schedule refresh - ignored'']\<rparr>)"
proof -
  let ?t = "empty_txn\<lparr>SCHEDULE_REFRESH_WORK := [refresh_later],
                       SCHEDULE_REFRESH_ATTENDEES := [(7, ''mailto:a@example.com'')]\<rparr>"
  have h: "list_ex (\<lambda>w. rfw_homeResourceID w = rfw_homeResourceID refresh0 \<and>
                        rfw_resourceID w = rfw_resourceID refresh0 \<and>
                        rfw_workID w \<noteq> rfw_workID refresh0) (SCHEDULE_REFRESH_WORK ?t)"
    by (simp add: refresh0_def refresh_later_def)
  from refresh_superseded_is_noop [OF h, of cfg0 remdups 100 baseR]
  show ?thesis by (simp add: refresh0_def empty_txn_def)
qed


lemma enqueued_simps [simp]:
  "CALENDAR_OBJECT (enqueued t) = CALENDAR_OBJECT t"
  "CALENDAR_HOME (enqueued t) = CALENDAR_HOME t"
  "events (enqueued t) = events t"
  "JOB (enqueued t) = JOB t"
  "SCHEDULE_WORK (enqueued t) = SCHEDULE_WORK t"
  "SCHEDULE_REFRESH_WORK (enqueued t) = SCHEDULE_REFRESH_WORK t"
  "SCHEDULE_REFRESH_ATTENDEES (enqueued t) = SCHEDULE_REFRESH_ATTENDEES t"
  "SCHEDULE_AUTO_REPLY_WORK (enqueued t) = SCHEDULE_AUTO_REPLY_WORK t"
  "SCHEDULE_ORGANIZER_WORK (enqueued t) = SCHEDULE_ORGANIZER_WORK t"
  "SCHEDULE_ORGANIZER_SEND_WORK (enqueued t) = SCHEDULE_ORGANIZER_SEND_WORK t"
  "SCHEDULE_REPLY_WORK (enqueued t) = SCHEDULE_REPLY_WORK t"
  by (simp_all add: enqueued_def)

lemma doDelayedRefresh_missing:
  assumes "calendarHomeWithResourceID t (rfw_homeResourceID self) = Some home"
    and "objectResourceWithID t home (Some (rfw_resourceID self)) = None"
  shows "doDelayedRefresh self attendeesToProcess t =
           (Return (), emit (Log ''ImplicitProcessing - skipping refresh of missing ID'') t)"
  using assms by (simp add: doDelayedRefresh_def)

lemma sendAttendeeAutoReply_missing:
  assumes "calendarHomeWithResourceID t (arw_homeResourceID self) = Some home"
    and "objectResourceWithID t home (Some (arw_resourceID self)) = None"
  shows "sendAttendeeAutoReply self t =
           (Return (), emit (Log ''ImplicitProcessing - skipping auto-reply of missing ID'') t)"
  using assms by (simp add: sendAttendeeAutoReply_def)

text \<open>The home and object lookups read only CALENDAR_HOME and CALENDAR_OBJECT.\<close>

lemma calendarHome_cong:
  "CALENDAR_HOME t' = CALENDAR_HOME t \<Longrightarrow>
   calendarHomeWithResourceID t' hid = calendarHomeWithResourceID t hid"
  by (simp add: calendarHomeWithResourceID_def)

lemma objectResource_cong:
  "CALENDAR_OBJECT t' = CALENDAR_OBJECT t \<Longrightarrow>
   objectResourceWithID t' home rid = objectResourceWithID t home rid"
  by (simp add: objectResourceWithID_def split: option.splits)

lemma txn_enqueue_frame [simp]:
  "CALENDAR_HOME (snd (txn_enqueue cls uid nb p (insert_RefreshWork h r c) t)) = CALENDAR_HOME t"
  "CALENDAR_OBJECT (snd (txn_enqueue cls uid nb p (insert_RefreshWork h r c) t)) = CALENDAR_OBJECT t"
  "SCHEDULE_REFRESH_ATTENDEES (snd (txn_enqueue cls uid nb p (insert_RefreshWork h r c) t)) =
     SCHEDULE_REFRESH_ATTENDEES t"
  "events (snd (txn_enqueue cls uid nb p (insert_RefreshWork h r c) t)) =
     events t @ [enqueue cls (WORKITEM_SEQ t)]"
  by (simp_all add: txn_enqueue_def ScheduleWorkMixin_create_def insert_RefreshWork_def Let_def)

lemma delete_attendees_frame [simp]:
  "CALENDAR_HOME (delete_attendees rid xs t) = CALENDAR_HOME t"
  "CALENDAR_OBJECT (delete_attendees rid xs t) = CALENDAR_OBJECT t"
  "events (delete_attendees rid xs t) = events t @ [Delete_REFRESH_ATTENDEES rid xs]"
  by (simp_all add: delete_attendees_def)

lemma select_attendees_emit [simp]: "select_attendees (emit e t) rid = select_attendees t rid"
  by (simp add: select_attendees_def)

lemma enqueued_snd: "(case p of (work, t') \<Rightarrow> enqueued t') = enqueued (snd p)"
  by (cases p) simp

lemma refresh_doWork_superseded:
  assumes "filter (\<lambda>w. rfw_homeResourceID w = rfw_homeResourceID self \<and>
                        rfw_resourceID w = rfw_resourceID self) (SCHEDULE_REFRESH_WORK t) \<noteq> []"
  shows "ScheduleRefreshWork_doWork cfg set_iter now baseWork self t =
           (Return (), emit (Log ''Schedule refresh - ignored'')
              (emit (Select_REFRESH_WORK (rfw_homeResourceID self) (rfw_resourceID self)) t))"
  using assms by (simp add: ScheduleRefreshWork_doWork_def Let_def)

lemma refresh_doWork_nothing_pending:
  assumes "filter (\<lambda>w. rfw_homeResourceID w = rfw_homeResourceID self \<and>
                        rfw_resourceID w = rfw_resourceID self) (SCHEDULE_REFRESH_WORK t) = []"
    and "set_iter (select_attendees t (rfw_resourceID self)) = []"
  shows "ScheduleRefreshWork_doWork cfg set_iter now baseWork self t =
           (Return (), emit (Select_REFRESH_ATTENDEES (rfw_resourceID self))
              (emit (Log ''ScheduleRefreshWork - running'')
                 (emit (Select_REFRESH_WORK (rfw_homeResourceID self) (rfw_resourceID self)) t)))"
  using assms by (simp add: ScheduleRefreshWork_doWork_def Let_def)

lemma refresh_doWork_batch:
  assumes "filter (\<lambda>w. rfw_homeResourceID w = rfw_homeResourceID self \<and>
                        rfw_resourceID w = rfw_resourceID self) (SCHEDULE_REFRESH_WORK t) = []"
    and "pending = set_iter (select_attendees t (rfw_resourceID self))"
    and "pending \<noteq> []"
    and "t4 = delete_attendees (rfw_resourceID self) (slice_to (AttendeeRefreshBatch cfg) pending)
                (emit (Select_REFRESH_ATTENDEES (rfw_resourceID self))
                   (emit (Log ''ScheduleRefreshWork - running'')
                      (emit (Select_REFRESH_WORK (rfw_homeResourceID self) (rfw_resourceID self)) t)))"
    and "t5 = (if slice_from (AttendeeRefreshBatch cfg) pending \<noteq> [] then
                 enqueued (snd (txn_enqueue ScheduleRefreshWork (sw_icalendarUID baseWork)
                    (now + AttendeeRefreshBatchIntervalSeconds cfg) 0
                    (insert_RefreshWork (rfw_homeResourceID self) (rfw_resourceID self)
                       (int (length (slice_from (AttendeeRefreshBatch cfg) pending)))) t4))
               else t4)"
  shows "ScheduleRefreshWork_doWork cfg set_iter now baseWork self t =
           (case doDelayedRefresh self (slice_to (AttendeeRefreshBatch cfg) pending) t5 of
              (Raise e, t6) \<Rightarrow> (Raise e, t6)
            | (Return u, t6) \<Rightarrow> (Return u, emit (Log ''ScheduleRefreshWork - done'') (dequeued t6)))"
  using assms(1,3) unfolding assms(5) assms(4) assms(2)
  by (simp add: ScheduleRefreshWork_doWork_def Let_def enqueued_snd)

subsection \<open>Missing target resource\<close>

text \<open>
  C9. For a Refresh item and an Auto-Reply item whose home exists and whose calendar
  object lookup returns None: \<open>_doDelayedRefresh\<close> and \<open>_sendAttendeeAutoReply\<close> only
  log that the resource is skipped, and doWork returns without an error, leaves the
  calendar objects as they were and adds no lock acquisition, no scheduling send and
  no calendar-data write to the events.
\<close>

theorem missing_resource_is_skipped:
  assumes "calendarHomeWithResourceID t (rfw_homeResourceID self) = Some home"
    and "objectResourceWithID t home (Some (rfw_resourceID self)) = None"
    and "calendarHomeWithResourceID t (arw_homeResourceID self') = Some home'"
    and "objectResourceWithID t home' (Some (arw_resourceID self')) = None"
    and "rr = ScheduleRefreshWork_doWork cfg set_iter now baseWork self t"
    and "ra = ScheduleAutoReplyWork_doWork self' t"
  shows "doDelayedRefresh self attendeesToProcess t =
           (Return (), emit (Log ''ImplicitProcessing - skipping refresh of missing ID'') t)
       \<and> sendAttendeeAutoReply self' t =
           (Return (), emit (Log ''ImplicitProcessing - skipping auto-reply of missing ID'') t)
       \<and> fst rr = Return () \<and> fst ra = Return ()
       \<and> CALENDAR_OBJECT (snd rr) = CALENDAR_OBJECT t
       \<and> CALENDAR_OBJECT (snd ra) = CALENDAR_OBJECT t
       \<and> filter lock_send_or_write (events (snd rr)) = filter lock_send_or_write (events t)
       \<and> filter lock_send_or_write (events (snd ra)) = filter lock_send_or_write (events t)
       \<and> Log ''ImplicitProcessing - skipping auto-reply of missing ID'' \<in> set (events (snd ra))"
proof -
  have a: "sendAttendeeAutoReply self' t' =
           (Return (), emit (Log ''ImplicitProcessing - skipping auto-reply of missing ID'') t')"
    if "CALENDAR_HOME t' = CALENDAR_HOME t" "CALENDAR_OBJECT t' = CALENDAR_OBJECT t" for t'
    using sendAttendeeAutoReply_missing [of t' self' home'] assms(3,4)
      calendarHome_cong [OF that(1)] objectResource_cong [OF that(2)] by simp
  have r: "doDelayedRefresh self xs t' =
           (Return (), emit (Log ''ImplicitProcessing - skipping refresh of missing ID'') t')"
    if "CALENDAR_HOME t' = CALENDAR_HOME t" "CALENDAR_OBJECT t' = CALENDAR_OBJECT t" for t' xs
    using doDelayedRefresh_missing [of t' self home] assms(1,2)
      calendarHome_cong [OF that(1)] objectResource_cong [OF that(2)] by simp
  have ra: "ra = (Return (), emit (Log ''ScheduleAutoReplyWork - done'')
                (dequeued (emit (Log ''ImplicitProcessing - skipping auto-reply of missing ID'')
                  (emit (Delete_AUTO_REPLY_WORK (arw_resourceID self'))
                    ((emit (Log ''ScheduleAutoReplyWork - running'') t)
                       \<lparr>SCHEDULE_AUTO_REPLY_WORK :=
                          filter (\<lambda>w. arw_resourceID w \<noteq> arw_resourceID self')
                            (SCHEDULE_AUTO_REPLY_WORK t)\<rparr>)))))"
    by (simp add: assms(6) ScheduleAutoReplyWork_doWork_def Let_def a)
  have ra3: "filter lock_send_or_write (events (snd ra)) = filter lock_send_or_write (events t)"
    by (simp add: ra dequeued_events lock_send_or_write_def)
  have ra4: "Log ''ImplicitProcessing - skipping auto-reply of missing ID'' \<in> set (events (snd ra))"
    by (simp add: ra dequeued_events)
  define rows where "rows = filter (\<lambda>w. rfw_homeResourceID w = rfw_homeResourceID self \<and>
                        rfw_resourceID w = rfw_resourceID self) (SCHEDULE_REFRESH_WORK t)"
  define pending where "pending = set_iter (select_attendees t (rfw_resourceID self))"
  define t4 where "t4 = delete_attendees (rfw_resourceID self) (slice_to (AttendeeRefreshBatch cfg) pending)
                (emit (Select_REFRESH_ATTENDEES (rfw_resourceID self))
                   (emit (Log ''ScheduleRefreshWork - running'')
                      (emit (Select_REFRESH_WORK (rfw_homeResourceID self) (rfw_resourceID self)) t)))"
  define t5 where "t5 = (if slice_from (AttendeeRefreshBatch cfg) pending \<noteq> [] then
                 enqueued (snd (txn_enqueue ScheduleRefreshWork (sw_icalendarUID baseWork)
                    (now + AttendeeRefreshBatchIntervalSeconds cfg) 0
                    (insert_RefreshWork (rfw_homeResourceID self) (rfw_resourceID self)
                       (int (length (slice_from (AttendeeRefreshBatch cfg) pending)))) t4))
               else t4)"
  have f: "CALENDAR_HOME t5 = CALENDAR_HOME t" "CALENDAR_OBJECT t5 = CALENDAR_OBJECT t"
    by (simp_all add: t5_def t4_def)
  have e5: "filter lock_send_or_write (events t5) = filter lock_send_or_write (events t)"
    by (simp add: t5_def t4_def lock_send_or_write_def)
  have rr: "fst rr = Return () \<and> CALENDAR_OBJECT (snd rr) = CALENDAR_OBJECT t
       \<and> filter lock_send_or_write (events (snd rr)) = filter lock_send_or_write (events t)"
  proof (cases "rows = []")
    case False
    then show ?thesis
      using refresh_doWork_superseded [of self t cfg set_iter now baseWork]
      by (simp add: rows_def assms(5) lock_send_or_write_def)
  next
    case True
    show ?thesis
    proof (cases "pending = []")
      case True
      with \<open>rows = []\<close> show ?thesis
        using refresh_doWork_nothing_pending [of self t set_iter cfg now baseWork]
        by (simp add: rows_def pending_def assms(5) lock_send_or_write_def)
    next
      case False
      have "rr = (Return (), emit (Log ''ScheduleRefreshWork - done'')
                   (dequeued (emit (Log ''ImplicitProcessing - skipping refresh of missing ID'') t5)))"
        using refresh_doWork_batch [where set_iter = set_iter and self = self and t = t,
            OF \<open>rows = []\<close> [unfolded rows_def] pending_def False t4_def t5_def]
        by (simp add: assms(5) r [OF f])
      then show ?thesis
        using f e5 by (simp add: dequeued_events lock_send_or_write_def)
    qed
  qed
  show ?thesis
    using r [of t attendeesToProcess] a [of t] rr ra3 ra4 by (simp add: ra)
qed


theorem missing_resource_is_skipped_witness:
  "ScheduleAutoReplyWork_doWork auto0 (empty_txn\<lparr>CALENDAR_OBJECT := []\<rparr>) =
     (Return (),
      empty_txn\<lparr>CALENDAR_OBJECT := [], queued := 0,
                 events := [Log ''ScheduleAutoReplyWork - running'', Delete_AUTO_REPLY_WORK 7,
                            Log ''ImplicitProcessing - skipping auto-reply of missing ID'',
                            Log ''ScheduleAutoReplyWork - done'']\<rparr>)
   \<and> fst (ScheduleRefreshWork_doWork cfg0 remdups 100 baseR refresh0
            (empty_txn\<lparr>CALENDAR_OBJECT := []\<rparr>)) = Return ()
   \<and> filter lock_send_or_write (events (snd (ScheduleRefreshWork_doWork cfg0 remdups 100 baseR
            refresh0 (empty_txn\<lparr>CALENDAR_OBJECT := []\<rparr>)))) = []"
proof -
  let ?t = "empty_txn\<lparr>CALENDAR_OBJECT := []\<rparr>"
  have h1: "calendarHomeWithResourceID ?t (rfw_homeResourceID refresh0) = Some home0"
    by (simp add: calendarHomeWithResourceID_def empty_txn_def refresh0_def home0_def)
  have h2: "objectResourceWithID ?t home0 (Some (rfw_resourceID refresh0)) = None"
    by (simp add: objectResourceWithID_def)
  have h3: "calendarHomeWithResourceID ?t (arw_homeResourceID auto0) = Some home0"
    by (simp add: calendarHomeWithResourceID_def empty_txn_def auto0_def home0_def)
  have h4: "objectResourceWithID ?t home0 (Some (arw_resourceID auto0)) = None"
    by (simp add: objectResourceWithID_def)
  have e: "ScheduleAutoReplyWork_doWork auto0 ?t =
     (Return (),
      empty_txn\<lparr>CALENDAR_OBJECT := [], queued := 0,
                 events := [Log ''ScheduleAutoReplyWork - running'', Delete_AUTO_REPLY_WORK 7,
                            Log ''ImplicitProcessing - skipping auto-reply of missing ID'',
                            Log ''ScheduleAutoReplyWork - done'']\<rparr>)"
    by (simp add: ScheduleAutoReplyWork_doWork_def sendAttendeeAutoReply_def
        calendarHomeWithResourceID_def objectResourceWithID_def dequeued_def emit_def Let_def
        empty_txn_def auto0_def home0_def)
  from missing_resource_is_skipped [OF h1 h2 h3 h4 refl refl,
      where cfg = cfg0 and set_iter = remdups and now = 100 and baseWork = baseR] e
  show ?thesis by (simp add: empty_txn_def)
qed


subsection \<open>Chaining\<close>

lemma JobItem_load_jobID: "JobItem_load t jid = Return job \<Longrightarrow> job_jobID job = jid"
  by (auto simp add: JobItem_load_def find_Some_iff split: option.splits)

lemma take1_sort_key:
  assumes "take 1 (sort_key f xs) = w # rest"
  shows "rest = [] \<and> w \<in> set xs \<and> (\<forall>b \<in> set xs. f w \<le> f b)"
proof -
  obtain ys where ys: "sort_key f xs = w # ys"
    using assms by (cases "sort_key f xs") simp_all
  have "sorted (map f (sort_key f xs))" by simp
  with ys have le: "\<forall>b \<in> set ys. f w \<le> f b" by simp
  have "set (sort_key f xs) = set xs" by simp
  with ys have s: "set xs = insert w (set ys)" by simp
  from assms ys have "rest = []" by simp
  with s le show ?thesis by auto
qed

lemma afterWork_query_Nil:
  "(afterWork_query t uid wid = []) =
     (filter (\<lambda>b. sw_icalendarUID b = uid \<and> sw_workID b \<noteq> wid) (SCHEDULE_WORK t) = [])"
proof -
  have "(take 1 ys = []) = (ys = [])" for ys :: "ScheduleWork list" by (cases ys) simp_all
  moreover have "(sort_key f xs = []) = (xs = [])" for f :: "ScheduleWork \<Rightarrow> nat" and xs
    by (metis length_sort length_0_conv)
  ultimately show ?thesis by (simp add: afterWork_query_def)
qed

lemma afterWork_query_emit [simp]: "afterWork_query (emit e t) uid wid = afterWork_query t uid wid"
  by (simp add: afterWork_query_def)

text \<open>
  C6. afterWork of an Organizer-Send item looks at the other SCHEDULE_WORK rows of the
  item's UID and takes the one with the smallest work id; when that row is an
  Organizer-Send item too and its job can be loaded, the job's notBefore becomes the
  current time, whatever it was, and no other job is changed. afterWork of any other
  kind of item changes nothing.
\<close>

theorem afterWork_promotes_oldest_send_sibling:
  assumes "others = filter (\<lambda>b. sw_icalendarUID b = sw_icalendarUID baseWork \<and>
                                sw_workID b \<noteq> sw_workID baseWork) (SCHEDULE_WORK t)"
    and "r = afterWork now baseWork t"
  shows "(sw_workType baseWork \<noteq> ScheduleOrganizerSendWork \<longrightarrow> r = (Return (), t))
     \<and> (sw_workType baseWork = ScheduleOrganizerSendWork \<and> others = [] \<longrightarrow>
          fst r = Return () \<and> JOB (snd r) = JOB t)
     \<and> (sw_workType baseWork = ScheduleOrganizerSendWork \<and> others \<noteq> [] \<longrightarrow>
          (\<exists>work \<in> set others. (\<forall>b \<in> set others. sw_workID work \<le> sw_workID b) \<and>
             (if sw_workType work = ScheduleOrganizerSendWork then
                (case JobItem_load t (sw_jobID work) of
                   Return job \<Rightarrow>
                     fst r = Return () \<and>
                     JOB (snd r) = map (\<lambda>j. if job_jobID j = sw_jobID work
                                             then j\<lparr>job_notBefore := now\<rparr> else j) (JOB t)
                 | Raise e \<Rightarrow> fst r = Raise e \<and> JOB (snd r) = JOB t)
              else fst r = Return () \<and> JOB (snd r) = JOB t)))"
proof (intro conjI impI)
  assume "sw_workType baseWork \<noteq> ScheduleOrganizerSendWork"
  then show "r = (Return (), t)" by (simp add: assms(2) afterWork_def)
next
  assume a: "sw_workType baseWork = ScheduleOrganizerSendWork \<and> others = []"
  then have "afterWork_query t (sw_icalendarUID baseWork) (sw_workID baseWork) = []"
    by (simp add: afterWork_query_Nil assms(1))
  with a show "fst r = Return ()" and "JOB (snd r) = JOB t"
    by (simp_all add: assms(2) afterWork_def Let_def)
next
  assume a: "sw_workType baseWork = ScheduleOrganizerSendWork \<and> others \<noteq> []"
  then have "afterWork_query t (sw_icalendarUID baseWork) (sw_workID baseWork) \<noteq> []"
    by (simp add: afterWork_query_Nil assms(1))
  then obtain work rest where
    q: "afterWork_query t (sw_icalendarUID baseWork) (sw_workID baseWork) = work # rest"
    by (cases "afterWork_query t (sw_icalendarUID baseWork) (sw_workID baseWork)") simp_all
  from take1_sort_key [OF q [unfolded afterWork_query_def]]
  have m: "work \<in> set others" "\<forall>b \<in> set others. sw_workID work \<le> sw_workID b"
    by (simp_all add: assms(1))
  have "if sw_workType work = ScheduleOrganizerSendWork then
                (case JobItem_load t (sw_jobID work) of
                   Return job \<Rightarrow>
                     fst r = Return () \<and>
                     JOB (snd r) = map (\<lambda>j. if job_jobID j = sw_jobID work
                                             then j\<lparr>job_notBefore := now\<rparr> else j) (JOB t)
                 | Raise e \<Rightarrow> fst r = Raise e \<and> JOB (snd r) = JOB t)
              else fst r = Return () \<and> JOB (snd r) = JOB t"
    using a q
    by (auto simp add: assms(2) afterWork_def Let_def JobItem_update_notBefore_def
        split: result.splits dest: JobItem_load_jobID)
  with m show "\<exists>work \<in> set others. (\<forall>b \<in> set others. sw_workID work \<le> sw_workID b) \<and>
             (if sw_workType work = ScheduleOrganizerSendWork then
                (case JobItem_load t (sw_jobID work) of
                   Return job \<Rightarrow>
                     fst r = Return () \<and>
                     JOB (snd r) = map (\<lambda>j. if job_jobID j = sw_jobID work
                                             then j\<lparr>job_notBefore := now\<rparr> else j) (JOB t)
                 | Raise e \<Rightarrow> fst r = Raise e \<and> JOB (snd r) = JOB t)
              else fst r = Return () \<and> JOB (snd r) = JOB t)"
    by blast
qed


theorem afterWork_promotes_oldest_send_sibling_witness:
  "fst (afterWork 42 base0 txn_siblings) = Return ()
   \<and> JOB (snd (afterWork 42 base0 txn_siblings)) = [job0 0, job8, job5\<lparr>job_notBefore := 42\<rparr>]"
proof -
  have o: "[sibling1, sibling0] =
           filter (\<lambda>b. sw_icalendarUID b = sw_icalendarUID base0 \<and> sw_workID b \<noteq> sw_workID base0)
             (SCHEDULE_WORK txn_siblings)"
    by (simp add: txn_siblings_def empty_txn_def sibling0_def sibling1_def base0_def)
  have j: "JobItem_load txn_siblings (sw_jobID sibling0) = Return job5"
    by (simp add: JobItem_load_def txn_siblings_def empty_txn_def sibling0_def job0_def
        job8_def job5_def)
  have w: "sw_workID sibling1 = 9" "sw_workID sibling0 = 6"
    "sw_workType sibling0 = ScheduleOrganizerSendWork" "sw_workType base0 = ScheduleOrganizerSendWork"
    "sw_jobID sibling0 = 5"
    by (simp_all add: sibling0_def sibling1_def base0_def)
  have k: "JOB txn_siblings = [job0 0, job8, job5]"
    "job_jobID (job0 0) = 3" "job_jobID job8 = 8" "job_jobID job5 = 5"
    by (simp_all add: txn_siblings_def empty_txn_def job0_def job8_def job5_def)
  from afterWork_promotes_oldest_send_sibling [OF o refl, of 42] j
  show ?thesis by (simp add: w k)
qed

subsection \<open>Auto-reply coalescing\<close>

lemma loadForJob_loop_from_table:
  assumes "\<And>b t. table (baseItem_delete b t) = table t"
  shows "(b, w) \<in> set (fst (loadForJob_loop table wid bs t)) \<Longrightarrow> w \<in> set (table t)"
proof (induction bs arbitrary: t)
  case Nil
  then show ?case by simp
next
  case (Cons baseItem rest)
  show ?case
  proof (cases "filter (\<lambda>w. wid w = sw_workID baseItem) (table t)")
    case Nil
    with Cons.prems have "(b, w) \<in> set (fst (loadForJob_loop table wid rest (baseItem_delete baseItem t)))"
      by simp
    from Cons.IH [OF this] show ?thesis by (simp add: assms)
  next
    case (Cons workItem more)
    then have "workItem \<in> set (filter (\<lambda>w. wid w = sw_workID baseItem) (table t))" by simp
    then have in_t: "workItem \<in> set (table t)" by simp
    from Cons.prems Cons
    have "(b, w) = (baseItem, workItem) \<or> (b, w) \<in> set (fst (loadForJob_loop table wid rest t))"
      by (simp add: split_beta)
    with in_t Cons.IH show ?thesis by auto
  qed
qed

lemma sendAttendeeAutoReply_frame:
  "SCHEDULE_AUTO_REPLY_WORK (snd (sendAttendeeAutoReply self t)) = SCHEDULE_AUTO_REPLY_WORK t"
  by (simp add: sendAttendeeAutoReply_def Let_def split: option.splits)

lemma sendAttendeeAutoReply_events:
  "\<exists>es. events (snd (sendAttendeeAutoReply self t)) = events t @ es \<and>
        length (filter is_sendAttendeeReply es) \<le> 1"
  by (simp add: sendAttendeeAutoReply_def Let_def is_sendAttendeeReply_def split: option.splits)

text \<open>
  C10. doWork of an Auto-Reply item first deletes every SCHEDULE_AUTO_REPLY_WORK row
  with the item's resource id (rows of other resources stay), and only then replies:
  the delete is the first event after the "running" log line, at most one call of
  \<open>sendAttendeeReply\<close> is made, and it comes after the delete. Afterwards the table has
  no row for the resource, so \<open>loadForJob\<close> finds no Auto-Reply item of that resource
  for any job: the other queued auto-replies of the burst are never run.
\<close>

theorem autoReply_deletes_queued_for_resource:
  assumes "r = ScheduleAutoReplyWork_doWork self t"
    and "new = drop (length (events t)) (events (snd r))"
  shows "SCHEDULE_AUTO_REPLY_WORK (snd r) =
           filter (\<lambda>w. arw_resourceID w \<noteq> arw_resourceID self) (SCHEDULE_AUTO_REPLY_WORK t)
     \<and> list_all (\<lambda>w. arw_resourceID w \<noteq> arw_resourceID self) (SCHEDULE_AUTO_REPLY_WORK (snd r))
     \<and> take 2 new = [Log ''ScheduleAutoReplyWork - running'',
                      Delete_AUTO_REPLY_WORK (arw_resourceID self)]
     \<and> length (filter is_sendAttendeeReply new) \<le> 1
     \<and> filter is_sendAttendeeReply (take 2 new) = []
     \<and> list_all (\<lambda>bw. arw_resourceID (snd bw) \<noteq> arw_resourceID self)
          (fst (loadForJob SCHEDULE_AUTO_REPLY_WORK arw_workID jobID (snd r)))"
proof -
  define t2 where "t2 = emit (Delete_AUTO_REPLY_WORK (arw_resourceID self))
                 ((emit (Log ''ScheduleAutoReplyWork - running'') t)
                    \<lparr>SCHEDULE_AUTO_REPLY_WORK :=
                       filter (\<lambda>w. arw_resourceID w \<noteq> arw_resourceID self)
                         (SCHEDULE_AUTO_REPLY_WORK t)\<rparr>)"
  obtain x t3 where s: "sendAttendeeAutoReply self t2 = (x, t3)"
    by (cases "sendAttendeeAutoReply self t2")
  have r: "r = (case x of Raise e \<Rightarrow> (Raise e, t3)
                | Return u \<Rightarrow> (Return u, emit (Log ''ScheduleAutoReplyWork - done'') (dequeued t3)))"
    using s by (simp add: assms(1) ScheduleAutoReplyWork_doWork_def Let_def t2_def split: result.splits)
  have tab3: "SCHEDULE_AUTO_REPLY_WORK t3 =
           filter (\<lambda>w. arw_resourceID w \<noteq> arw_resourceID self) (SCHEDULE_AUTO_REPLY_WORK t)"
    using sendAttendeeAutoReply_frame [of self t2] s by (simp add: t2_def)
  obtain es where es: "events t3 = events t2 @ es" "length (filter is_sendAttendeeReply es) \<le> 1"
    using sendAttendeeAutoReply_events [of self t2] s by auto
  have ev2: "events t2 = events t @ [Log ''ScheduleAutoReplyWork - running'',
                                     Delete_AUTO_REPLY_WORK (arw_resourceID self)]"
    by (simp add: t2_def)
  have tab: "SCHEDULE_AUTO_REPLY_WORK (snd r) =
           filter (\<lambda>w. arw_resourceID w \<noteq> arw_resourceID self) (SCHEDULE_AUTO_REPLY_WORK t)"
    by (simp add: r tab3 split: result.splits)
  have new: "\<exists>ds. new = [Log ''ScheduleAutoReplyWork - running'',
                          Delete_AUTO_REPLY_WORK (arw_resourceID self)] @ es @ ds
                \<and> filter is_sendAttendeeReply ds = []"
    by (simp add: assms(2) r es(1) ev2 dequeued_events is_sendAttendeeReply_def split: result.splits)
  then obtain ds where ds: "new = [Log ''ScheduleAutoReplyWork - running'',
                          Delete_AUTO_REPLY_WORK (arw_resourceID self)] @ es @ ds"
       "filter is_sendAttendeeReply ds = []" by blast
  have c3: "take 2 new = [Log ''ScheduleAutoReplyWork - running'',
                      Delete_AUTO_REPLY_WORK (arw_resourceID self)]"
    by (simp add: ds(1))
  have c4: "length (filter is_sendAttendeeReply new) \<le> 1"
    using es(2) by (simp add: ds is_sendAttendeeReply_def)
  have c5: "filter is_sendAttendeeReply (take 2 new) = []"
    by (simp add: c3 is_sendAttendeeReply_def)
  have c2: "list_all (\<lambda>w. arw_resourceID w \<noteq> arw_resourceID self) (SCHEDULE_AUTO_REPLY_WORK (snd r))"
    by (simp add: tab list_all_iff)
  have c6: "list_all (\<lambda>bw. arw_resourceID (snd bw) \<noteq> arw_resourceID self)
          (fst (loadForJob SCHEDULE_AUTO_REPLY_WORK arw_workID jobID (snd r)))"
  proof -
    have "w \<in> set (SCHEDULE_AUTO_REPLY_WORK (snd r))"
      if "(b, w) \<in> set (fst (loadForJob SCHEDULE_AUTO_REPLY_WORK arw_workID jobID (snd r)))" for b w
      using that unfolding loadForJob_def
      by (rule loadForJob_loop_from_table [rotated]) (simp add: baseItem_delete_def)
    then show ?thesis using c2 by (auto simp add: list_all_iff)
  qed
  from tab c2 c3 c4 c5 c6 show ?thesis by (intro conjI)
qed

theorem autoReply_deletes_queued_for_resource_witness:
  "SCHEDULE_AUTO_REPLY_WORK (snd (ScheduleAutoReplyWork_doWork auto0
      (empty_txn\<lparr>SCHEDULE_AUTO_REPLY_WORK := [auto_other, auto_elsewhere, auto_other]\<rparr>)))
     = [auto_elsewhere]
   \<and> events (snd (ScheduleAutoReplyWork_doWork auto0
      (empty_txn\<lparr>SCHEDULE_AUTO_REPLY_WORK := [auto_other, auto_elsewhere, auto_other]\<rparr>)))
     = [Log ''ScheduleAutoReplyWork - running'', Delete_AUTO_REPLY_WORK 7,
        NamedLock_acquire ''uid-1'', Log ''ImplicitProcessing - auto-reply'', sendAttendeeReply 7,
        Log ''ScheduleAutoReplyWork - done'']"
proof -
  let ?t = "empty_txn\<lparr>SCHEDULE_AUTO_REPLY_WORK := [auto_other, auto_elsewhere, auto_other]\<rparr>"
  have e: "events (snd (ScheduleAutoReplyWork_doWork auto0 ?t))
     = [Log ''ScheduleAutoReplyWork - running'', Delete_AUTO_REPLY_WORK 7,
        NamedLock_acquire ''uid-1'', Log ''ImplicitProcessing - auto-reply'', sendAttendeeReply 7,
        Log ''ScheduleAutoReplyWork - done'']"
    by (simp add: ScheduleAutoReplyWork_doWork_def sendAttendeeAutoReply_def
        calendarHomeWithResourceID_def objectResourceWithID_def dequeued_def emit_def Let_def
        empty_txn_def auto0_def home0_def object0_def)
  from autoReply_deletes_queued_for_resource [OF refl refl, of auto0 ?t 3] e
  show ?thesis by (simp add: auto0_def auto_other_def auto_elsewhere_def)
qed


subsection \<open>Refresh triggers and batches\<close>

lemma case_prod_snd: "(case p of (a, b) \<Rightarrow> f b) = f (snd p)"
  by (cases p) simp

lemma fold_insert_attendee:
  "fold (insert_attendee rid) xs t =
     t\<lparr>SCHEDULE_REFRESH_ATTENDEES := SCHEDULE_REFRESH_ATTENDEES t @ map (Pair rid) xs,
       events := events t @ map (Insert_REFRESH_ATTENDEES rid) xs\<rparr>"
  by (induction xs arbitrary: t) (simp_all add: insert_attendee_def emit_def)

lemma select_attendees_append:
  "map snd (filter (\<lambda>row. fst row = rid) (rows @ map (Pair rid) xs)) =
     map snd (filter (\<lambda>row. fst row = rid) rows) @ xs"
  by (simp add: filter_map o_def)

lemma refreshAttendees_result:
  assumes "inserted = set_iter (filter (\<lambda>a. a \<notin> set (select_attendees t (co_id organizer_resource))) attendees)"
  shows "refreshAttendees cfg set_iter now organizer_resource attendees pause t =
     t\<lparr>JOB := JOB t @ [\<lparr>job_jobID = JOB_SEQ t, job_workType = ScheduleRefreshWork,
                         job_notBefore = now + AttendeeRefreshBatchDelaySeconds cfg,
                         job_failed = 0, job_pause = pause\<rparr>],
       SCHEDULE_WORK := SCHEDULE_WORK t @
          [\<lparr>sw_workID = WORKITEM_SEQ t, sw_jobID = JOB_SEQ t,
            sw_icalendarUID = co_uid organizer_resource, sw_workType = ScheduleRefreshWork\<rparr>],
       SCHEDULE_REFRESH_WORK := SCHEDULE_REFRESH_WORK t @
          [\<lparr>rfw_workID = WORKITEM_SEQ t, rfw_homeResourceID = co_home organizer_resource,
            rfw_resourceID = co_id organizer_resource,
            rfw_attendeeCount = int (length attendees)\<rparr>],
       SCHEDULE_REFRESH_ATTENDEES := SCHEDULE_REFRESH_ATTENDEES t @
          map (Pair (co_id organizer_resource)) inserted,
       JOB_SEQ := Suc (JOB_SEQ t), WORKITEM_SEQ := Suc (WORKITEM_SEQ t),
       queued := queued t + 1,
       events := events t @ [Select_REFRESH_ATTENDEES (co_id organizer_resource)] @
                 map (Insert_REFRESH_ATTENDEES (co_id organizer_resource)) inserted @
                 [enqueue ScheduleRefreshWork (WORKITEM_SEQ t), Log ''ScheduleRefreshWork - enqueued'']\<rparr>"
  by (simp add: refreshAttendees_def Let_def case_prod_snd fold_insert_attendee
      txn_enqueue_def ScheduleWorkMixin_create_def insert_RefreshWork_def enqueued_def emit_def
      assms select_attendees_def)


text \<open>
  C4. refreshAttendees inserts into SCHEDULE_REFRESH_ATTENDEES, for the resource, each
  requested attendee that is not yet pending for it, once, and nothing else, so that
  the pending set of the resource becomes the union of the old set and the requested
  attendees; and it always enqueues one new Refresh item (job, SCHEDULE_WORK row and
  SCHEDULE_REFRESH_WORK row), also when nothing was inserted. Two triggers in a row
  leave the union of the old set and both requests.
\<close>

theorem refreshAttendees_merges_pending_and_enqueues:
  assumes "\<forall>xs. distinct (set_iter xs) \<and> set (set_iter xs) = set xs"
    and "rid = co_id organizer_resource"
    and "inserted = set_iter (filter (\<lambda>a. a \<notin> set (select_attendees t rid)) attendees)"
    and "t' = refreshAttendees cfg set_iter now organizer_resource attendees pause t"
    and "t'' = refreshAttendees cfg set_iter now' organizer_resource attendees' pause' t'"
  shows "SCHEDULE_REFRESH_ATTENDEES t' = SCHEDULE_REFRESH_ATTENDEES t @ map (Pair rid) inserted
     \<and> distinct inserted
     \<and> set inserted = set attendees - set (select_attendees t rid)
     \<and> set (select_attendees t' rid) = set (select_attendees t rid) \<union> set attendees
     \<and> SCHEDULE_REFRESH_WORK t' = SCHEDULE_REFRESH_WORK t @
          [\<lparr>rfw_workID = WORKITEM_SEQ t, rfw_homeResourceID = co_home organizer_resource,
            rfw_resourceID = rid, rfw_attendeeCount = int (length attendees)\<rparr>]
     \<and> SCHEDULE_WORK t' = SCHEDULE_WORK t @
          [\<lparr>sw_workID = WORKITEM_SEQ t, sw_jobID = JOB_SEQ t,
            sw_icalendarUID = co_uid organizer_resource, sw_workType = ScheduleRefreshWork\<rparr>]
     \<and> JOB t' = JOB t @ [\<lparr>job_jobID = JOB_SEQ t, job_workType = ScheduleRefreshWork,
                           job_notBefore = now + AttendeeRefreshBatchDelaySeconds cfg,
                           job_failed = 0, job_pause = pause\<rparr>]
     \<and> enqueue ScheduleRefreshWork (WORKITEM_SEQ t) \<in> set (events t')
     \<and> set (select_attendees t'' rid) = set (select_attendees t rid) \<union> set attendees \<union> set attendees'"
proof -
  note r = refreshAttendees_result [where set_iter = set_iter and t = t and cfg = cfg
      and now = now and pause = pause and attendees = attendees
      and organizer_resource = organizer_resource,
      OF assms(3) [unfolded assms(2)], folded assms(4)]
  have c1: "SCHEDULE_REFRESH_ATTENDEES t' = SCHEDULE_REFRESH_ATTENDEES t @ map (Pair rid) inserted"
    by (simp add: r assms(2))
  have c2: "distinct inserted" "set inserted = set attendees - set (select_attendees t rid)"
    using assms(1) by (auto simp add: assms(3))
  have u: "set (select_attendees (refreshAttendees cfg set_iter n organizer_resource as p s) rid) =
           set (select_attendees s rid) \<union> set as" for n as p s
  proof -
    have "set (set_iter (filter (\<lambda>a. a \<notin> set (select_attendees s rid)) as)) =
          set as - set (select_attendees s rid)"
      using assms(1) by auto
    then show ?thesis
      by (simp add: refreshAttendees_result [where set_iter = set_iter and t = s
            and attendees = as and organizer_resource = organizer_resource, OF refl]
          select_attendees_def assms(2) select_attendees_append)
  qed
  have c4: "set (select_attendees t' rid) = set (select_attendees t rid) \<union> set attendees"
    by (simp add: assms(4) u)
  have c9: "set (select_attendees t'' rid) =
            set (select_attendees t rid) \<union> set attendees \<union> set attendees'"
    by (simp add: assms(5) u c4)
  have c5: "SCHEDULE_REFRESH_WORK t' = SCHEDULE_REFRESH_WORK t @
          [\<lparr>rfw_workID = WORKITEM_SEQ t, rfw_homeResourceID = co_home organizer_resource,
            rfw_resourceID = rid, rfw_attendeeCount = int (length attendees)\<rparr>]"
    by (simp add: r assms(2))
  have c6: "SCHEDULE_WORK t' = SCHEDULE_WORK t @
          [\<lparr>sw_workID = WORKITEM_SEQ t, sw_jobID = JOB_SEQ t,
            sw_icalendarUID = co_uid organizer_resource, sw_workType = ScheduleRefreshWork\<rparr>]"
    by (simp add: r)
  have c7: "JOB t' = JOB t @ [\<lparr>job_jobID = JOB_SEQ t, job_workType = ScheduleRefreshWork,
                           job_notBefore = now + AttendeeRefreshBatchDelaySeconds cfg,
                           job_failed = 0, job_pause = pause\<rparr>]"
    by (simp add: r)
  have c8: "enqueue ScheduleRefreshWork (WORKITEM_SEQ t) \<in> set (events t')"
    by (simp add: r)
  from c1 c2 c4 c5 c6 c7 c8 c9 show ?thesis by (intro conjI)
qed

theorem refreshAttendees_merges_pending_and_enqueues_witness:
  "set (select_attendees
          (refreshAttendees cfg0 remdups 101 object0 [''mailto:b'', ''mailto:c''] 0
             (refreshAttendees cfg0 remdups 100 object0 [''mailto:a'', ''mailto:b''] 0 empty_txn)) 7)
     = {''mailto:a'', ''mailto:b'', ''mailto:c''}
   \<and> SCHEDULE_REFRESH_ATTENDEES
        (refreshAttendees cfg0 remdups 100 object0 [''mailto:a'', ''mailto:b''] 0 empty_txn)
     = [(7, ''mailto:a''), (7, ''mailto:b'')]
   \<and> SCHEDULE_REFRESH_WORK
        (refreshAttendees cfg0 remdups 100 object0 [''mailto:a'', ''mailto:b''] 0 empty_txn)
     = [\<lparr>rfw_workID = 10, rfw_homeResourceID = 1, rfw_resourceID = 7, rfw_attendeeCount = 2\<rparr>]"
proof -
  have h1: "\<forall>xs::string list. distinct (remdups xs) \<and> set (remdups xs) = set xs" by simp
  have h2: "7 = co_id object0" by (simp add: object0_def)
  from refreshAttendees_merges_pending_and_enqueues [OF h1 h2 refl refl refl,
      of cfg0 100 "[''mailto:a'', ''mailto:b'']" 0 empty_txn 101 "[''mailto:b'', ''mailto:c'']" 0]
  show ?thesis
    by (simp add: select_attendees_def empty_txn_def object0_def insert_commute)
qed


lemma doDelayedRefresh_frame:
  "SCHEDULE_REFRESH_ATTENDEES (snd (doDelayedRefresh self xs t)) = SCHEDULE_REFRESH_ATTENDEES t"
  "\<exists>es. events (snd (doDelayedRefresh self xs t)) = events t @ es"
  by (simp_all add: doDelayedRefresh_def Let_def split: option.splits)

text \<open>
  C5. When a Refresh item that is not superseded finds pending attendees and the
  configured batch size is positive, the batch is the first AttendeeRefreshBatch
  attendees of the deduplicated read, and the rows left in SCHEDULE_REFRESH_ATTENDEES
  are exactly the old rows that are not both of this resource and of an attendee of the
  batch: rows of other resources and rows of attendees outside the batch stay.
\<close>

theorem refresh_drain_deletes_exactly_batch:
  assumes "filter (\<lambda>w. rfw_homeResourceID w = rfw_homeResourceID self \<and>
                        rfw_resourceID w = rfw_resourceID self) (SCHEDULE_REFRESH_WORK t) = []"
    and "rid = rfw_resourceID self"
    and "pending = set_iter (select_attendees t rid)"
    and "distinct pending \<and> set pending = set (select_attendees t rid)"
    and "select_attendees t rid \<noteq> []"
    and "0 < AttendeeRefreshBatch cfg"
    and "batch = take (nat (AttendeeRefreshBatch cfg)) pending"
    and "r = ScheduleRefreshWork_doWork cfg set_iter now baseWork self t"
  shows "SCHEDULE_REFRESH_ATTENDEES (snd r) =
           filter (\<lambda>row. \<not> (fst row = rid \<and> snd row \<in> set batch)) (SCHEDULE_REFRESH_ATTENDEES t)
     \<and> filter (\<lambda>row. fst row \<noteq> rid) (SCHEDULE_REFRESH_ATTENDEES (snd r)) =
         filter (\<lambda>row. fst row \<noteq> rid) (SCHEDULE_REFRESH_ATTENDEES t)
     \<and> set (select_attendees (snd r) rid) = set (select_attendees t rid) - set batch
     \<and> batch \<noteq> [] \<and> distinct batch \<and> set batch \<subseteq> set (select_attendees t rid)
     \<and> Delete_REFRESH_ATTENDEES rid batch \<in> set (events (snd r))"
proof -
  have ne: "pending \<noteq> []" using assms(4,5) by auto
  have b: "slice_to (AttendeeRefreshBatch cfg) pending = batch"
    using assms(6) by (simp add: slice_to_def assms(7))
  define t4 where "t4 = delete_attendees (rfw_resourceID self) (slice_to (AttendeeRefreshBatch cfg) pending)
                (emit (Select_REFRESH_ATTENDEES (rfw_resourceID self))
                   (emit (Log ''ScheduleRefreshWork - running'')
                      (emit (Select_REFRESH_WORK (rfw_homeResourceID self) (rfw_resourceID self)) t)))"
  define t5 where "t5 = (if slice_from (AttendeeRefreshBatch cfg) pending \<noteq> [] then
                 enqueued (snd (txn_enqueue ScheduleRefreshWork (sw_icalendarUID baseWork)
                    (now + AttendeeRefreshBatchIntervalSeconds cfg) 0
                    (insert_RefreshWork (rfw_homeResourceID self) (rfw_resourceID self)
                       (int (length (slice_from (AttendeeRefreshBatch cfg) pending)))) t4))
               else t4)"
  note d = refresh_doWork_batch [where set_iter = set_iter and self = self and t = t
            and now = now and baseWork = baseWork,
            OF assms(1) assms(3) [unfolded assms(2)] ne t4_def t5_def, folded assms(8)]
  obtain x t6 where x: "doDelayedRefresh self (slice_to (AttendeeRefreshBatch cfg) pending) t5 = (x, t6)"
    by (cases "doDelayedRefresh self (slice_to (AttendeeRefreshBatch cfg) pending) t5")
  have tab4: "SCHEDULE_REFRESH_ATTENDEES t4 =
           filter (\<lambda>row. \<not> (fst row = rid \<and> snd row \<in> set batch)) (SCHEDULE_REFRESH_ATTENDEES t)"
    by (simp add: t4_def delete_attendees_def b assms(2))
  have tab5: "SCHEDULE_REFRESH_ATTENDEES t5 = SCHEDULE_REFRESH_ATTENDEES t4"
    by (simp add: t5_def)
  have tab6: "SCHEDULE_REFRESH_ATTENDEES t6 = SCHEDULE_REFRESH_ATTENDEES t5"
    using doDelayedRefresh_frame(1) [of self "slice_to (AttendeeRefreshBatch cfg) pending" t5] x
    by simp
  have c1: "SCHEDULE_REFRESH_ATTENDEES (snd r) =
           filter (\<lambda>row. \<not> (fst row = rid \<and> snd row \<in> set batch)) (SCHEDULE_REFRESH_ATTENDEES t)"
    by (simp add: d x tab6 tab5 tab4 split: result.splits)
  have ev4: "Delete_REFRESH_ATTENDEES rid batch \<in> set (events t4)"
    by (simp add: t4_def b assms(2))
  have ev5: "\<exists>es. events t5 = events t4 @ es"
    by (simp add: t5_def)
  obtain es where ev6: "events t6 = events t5 @ es"
    using doDelayedRefresh_frame(2) [of self "slice_to (AttendeeRefreshBatch cfg) pending" t5] x
    by auto
  have c5: "Delete_REFRESH_ATTENDEES rid batch \<in> set (events (snd r))"
    using ev4 ev5 by (auto simp add: d x ev6 dequeued_events split: result.splits)
  have c2: "filter (\<lambda>row. fst row \<noteq> rid) (SCHEDULE_REFRESH_ATTENDEES (snd r)) =
         filter (\<lambda>row. fst row \<noteq> rid) (SCHEDULE_REFRESH_ATTENDEES t)"
    unfolding c1 filter_filter by (rule filter_cong) auto
  have c3: "set (select_attendees (snd r) rid) = set (select_attendees t rid) - set batch"
    by (auto simp add: select_attendees_def c1)
  have c4: "batch \<noteq> [] \<and> distinct batch \<and> set batch \<subseteq> set (select_attendees t rid)"
    using assms(4,6) ne by (auto simp add: assms(7) dest: in_set_takeD)
  from c1 c2 c3 c4 c5 show ?thesis by (intro conjI) simp_all
qed

theorem refresh_drain_deletes_exactly_batch_witness:
  "SCHEDULE_REFRESH_ATTENDEES (snd (ScheduleRefreshWork_doWork (cfg0\<lparr>AttendeeRefreshBatch := 1\<rparr>)
      remdups 100 baseR refresh0
      (empty_txn\<lparr>SCHEDULE_REFRESH_ATTENDEES :=
         [(7, ''mailto:a''), (9, ''mailto:b''), (7, ''mailto:b''), (7, ''mailto:a'')]\<rparr>)))
     = [(7, ''mailto:a''), (9, ''mailto:b''), (7, ''mailto:a'')]"
proof -
  let ?t = "empty_txn\<lparr>SCHEDULE_REFRESH_ATTENDEES :=
         [(7, ''mailto:a''), (9, ''mailto:b''), (7, ''mailto:b''), (7, ''mailto:a'')]\<rparr>"
  let ?cfg = "cfg0\<lparr>AttendeeRefreshBatch := 1\<rparr>"
  have s: "select_attendees ?t 7 = [''mailto:a'', ''mailto:b'', ''mailto:a'']"
    by (simp add: select_attendees_def)
  have h1: "filter (\<lambda>w. rfw_homeResourceID w = rfw_homeResourceID refresh0 \<and>
                        rfw_resourceID w = rfw_resourceID refresh0) (SCHEDULE_REFRESH_WORK ?t) = []"
    by (simp add: empty_txn_def)
  have h2: "7 = rfw_resourceID refresh0" by (simp add: refresh0_def)
  have h3: "[''mailto:b'', ''mailto:a''] = remdups (select_attendees ?t 7)"
    by (simp add: s)
  have h4: "distinct [''mailto:b'', ''mailto:a''] \<and>
            set [''mailto:b'', ''mailto:a''] = set (select_attendees ?t 7)"
    by (auto simp add: s)
  have h5: "select_attendees ?t 7 \<noteq> []" by (simp add: s)
  have h6: "0 < AttendeeRefreshBatch ?cfg" by simp
  have h7: "[''mailto:b''] = take (nat (AttendeeRefreshBatch ?cfg)) [''mailto:b'', ''mailto:a'']"
    by simp
  from refresh_drain_deletes_exactly_batch [where set_iter = remdups and now = 100
      and baseWork = baseR, OF h1 h2 h3 h4 h5 h6 h7 refl]
  show ?thesis by simp
qed

text \<open>
  C2. The class documentation says that a refresh that ran always reschedules, also
  when no attendee remains. Here two attendees are pending, the batch of five takes
  both, the refresh is sent, and no Refresh item is enqueued: JOB, SCHEDULE_WORK and
  SCHEDULE_REFRESH_WORK are empty afterwards.
\<close>

theorem refresh_drained_enqueues_no_followup:
  "fst (ScheduleRefreshWork_doWork cfg0 remdups 100 baseR refresh0 txn_two_pending) = Return ()
   \<and> events (snd (ScheduleRefreshWork_doWork cfg0 remdups 100 baseR refresh0 txn_two_pending)) =
        [Select_REFRESH_WORK 1 7, Log ''ScheduleRefreshWork - running'',
         Select_REFRESH_ATTENDEES 7, Delete_REFRESH_ATTENDEES 7 [''mailto:b'', ''mailto:a''],
         NamedLock_acquire ''uid-1'', Log ''ImplicitProcessing - refreshing'',
         refreshAllAttendeesExceptSome 7 [''mailto:b'', ''mailto:a''],
         Log ''ScheduleRefreshWork - done'']
   \<and> SCHEDULE_REFRESH_ATTENDEES
        (snd (ScheduleRefreshWork_doWork cfg0 remdups 100 baseR refresh0 txn_two_pending)) = []
   \<and> SCHEDULE_REFRESH_WORK
        (snd (ScheduleRefreshWork_doWork cfg0 remdups 100 baseR refresh0 txn_two_pending)) = []
   \<and> SCHEDULE_WORK
        (snd (ScheduleRefreshWork_doWork cfg0 remdups 100 baseR refresh0 txn_two_pending)) = []
   \<and> JOB (snd (ScheduleRefreshWork_doWork cfg0 remdups 100 baseR refresh0 txn_two_pending)) = []"
  by (simp add: ScheduleRefreshWork_doWork_def doDelayedRefresh_def select_attendees_def
      slice_to_def slice_from_def delete_attendees_def calendarHomeWithResourceID_def
      objectResourceWithID_def dequeued_def emit_def Let_def txn_two_pending_def
      cfg0_def refresh0_def empty_txn_def home0_def object0_def)


subsection \<open>Migration\<close>

lemmas enqueue_defs = txn_enqueue_def ScheduleWorkMixin_create_def enqueued_def emit_def Let_def
  case_prod_snd

lemma organizer_schedule_result:
  "ScheduleOrganizerWork_schedule cfg now uid action home resource calendar_old calendar_new
     attendee_count smart_merge pause t =
   t\<lparr>JOB := JOB t @ [\<lparr>job_jobID = JOB_SEQ t, job_workType = ScheduleOrganizerWork,
                       job_notBefore = now + RequestDelaySeconds cfg, job_failed = 0,
                       job_pause = pause\<rparr>],
     SCHEDULE_WORK := SCHEDULE_WORK t @
       [\<lparr>sw_workID = WORKITEM_SEQ t, sw_jobID = JOB_SEQ t, sw_icalendarUID = uid,
         sw_workType = ScheduleOrganizerWork\<rparr>],
     SCHEDULE_ORGANIZER_WORK := SCHEDULE_ORGANIZER_WORK t @
       [\<lparr>ow_workID = WORKITEM_SEQ t, ow_homeResourceID = home_id home,
         ow_resourceID = resource_id resource, ow_scheduleAction = action,
         ow_icalendarTextOld = calendar_old, ow_icalendarTextNew = calendar_new,
         ow_attendeeCount = attendee_count, ow_smartMerge = smart_merge\<rparr>],
     JOB_SEQ := Suc (JOB_SEQ t), WORKITEM_SEQ := Suc (WORKITEM_SEQ t), queued := queued t + 1,
     events := events t @ [enqueue ScheduleOrganizerWork (WORKITEM_SEQ t),
                           Log ''ScheduleOrganizerWork - enqueued'']\<rparr>"
  by (simp add: ScheduleOrganizerWork_schedule_def insert_OrganizerWork_def enqueue_defs)

lemma send_schedule_result:
  "ScheduleOrganizerSendWork_schedule cfg now action home resource attendee itipmsg no_refresh
     stagger pause t =
   t\<lparr>JOB := JOB t @ [\<lparr>job_jobID = JOB_SEQ t, job_workType = ScheduleOrganizerSendWork,
                       job_notBefore = now + (RequestDelaySeconds cfg + stagger), job_failed = 0,
                       job_pause = pause\<rparr>],
     SCHEDULE_WORK := SCHEDULE_WORK t @
       [\<lparr>sw_workID = WORKITEM_SEQ t, sw_jobID = JOB_SEQ t,
         sw_icalendarUID = ical_resourceUID itipmsg, sw_workType = ScheduleOrganizerSendWork\<rparr>],
     SCHEDULE_ORGANIZER_SEND_WORK := SCHEDULE_ORGANIZER_SEND_WORK t @
       [\<lparr>osw_workID = WORKITEM_SEQ t, osw_homeResourceID = home_id home,
         osw_resourceID = resource_id resource, osw_scheduleAction = action,
         osw_attendee = attendee, osw_itipMsg = ical_text itipmsg, osw_noRefresh = no_refresh\<rparr>],
     JOB_SEQ := Suc (JOB_SEQ t), WORKITEM_SEQ := Suc (WORKITEM_SEQ t), queued := queued t + 1,
     events := events t @ [enqueue ScheduleOrganizerSendWork (WORKITEM_SEQ t),
                           Log ''ScheduleOrganizerSendWork - enqueued'']\<rparr>"
  by (simp add: ScheduleOrganizerSendWork_schedule_def insert_OrganizerSendWork_def enqueue_defs)

lemma reply_result:
  "ScheduleReplyWork_reply cfg now home resource itipmsg pause t =
   t\<lparr>JOB := JOB t @ [\<lparr>job_jobID = JOB_SEQ t, job_workType = ScheduleReplyWork,
                       job_notBefore = now + ReplyDelaySeconds cfg, job_failed = 0,
                       job_pause = pause\<rparr>],
     SCHEDULE_WORK := SCHEDULE_WORK t @
       [\<lparr>sw_workID = WORKITEM_SEQ t, sw_jobID = JOB_SEQ t,
         sw_icalendarUID = ical_resourceUID itipmsg, sw_workType = ScheduleReplyWork\<rparr>],
     SCHEDULE_REPLY_WORK := SCHEDULE_REPLY_WORK t @
       [\<lparr>rw_workID = WORKITEM_SEQ t, rw_homeResourceID = home_id home,
         rw_resourceID = resource_id resource, rw_itipMsg = ical_text itipmsg\<rparr>],
     JOB_SEQ := Suc (JOB_SEQ t), WORKITEM_SEQ := Suc (WORKITEM_SEQ t), queued := queued t + 1,
     events := events t @ [enqueue ScheduleReplyWork (WORKITEM_SEQ t),
                           Log ''ScheduleReplyWork - enqueued'']\<rparr>"
  by (simp add: ScheduleReplyWork_reply_def insert_ReplyWork_def enqueue_defs)

lemma autoReply_result:
  "autoReply cfg now resource partstat pause t =
   t\<lparr>JOB := JOB t @ [\<lparr>job_jobID = JOB_SEQ t, job_workType = ScheduleAutoReplyWork,
                       job_notBefore = now + AutoReplyDelaySeconds cfg, job_failed = 0,
                       job_pause = pause\<rparr>],
     SCHEDULE_WORK := SCHEDULE_WORK t @
       [\<lparr>sw_workID = WORKITEM_SEQ t, sw_jobID = JOB_SEQ t,
         sw_icalendarUID = co_uid resource, sw_workType = ScheduleAutoReplyWork\<rparr>],
     SCHEDULE_AUTO_REPLY_WORK := SCHEDULE_AUTO_REPLY_WORK t @
       [\<lparr>arw_workID = WORKITEM_SEQ t, arw_homeResourceID = co_home resource,
         arw_resourceID = co_id resource, arw_partstat = partstat\<rparr>],
     JOB_SEQ := Suc (JOB_SEQ t), WORKITEM_SEQ := Suc (WORKITEM_SEQ t), queued := queued t + 1,
     events := events t @ [enqueue ScheduleAutoReplyWork (WORKITEM_SEQ t),
                           Log ''ScheduleAutoReplyWork - enqueued'']\<rparr>"
  by (simp add: autoReply_def insert_AutoReplyWork_def enqueue_defs)


text \<open>
  C7 (as amended). migrate returns False, creates nothing and raises nothing when the
  callback maps the item's resource to no destination resource: for the organizer,
  send and reply kinds when the stored resource id is not null and the mapped resource
  is None, for the refresh and auto-reply kinds whenever the mapped resource is None.
  Otherwise it enqueues one new item of the same kind with the same payload under the
  new home and resource ids, with the job's pause flag set to 1, and returns True; for
  the send and reply kinds this is stated for a stored iTIP message that is not empty.
  Component.fromString is taken to return the parsed object for the stored text.
\<close>

theorem migrate_drops_unmapped_and_pauses_mapped:
  "(ow_resourceID ow \<noteq> None \<longrightarrow>
      ScheduleOrganizerWork_migrate cfg fromString now ow (new_home, None) t = (Return False, t))
 \<and> (osw_resourceID osw \<noteq> None \<longrightarrow>
      ScheduleOrganizerSendWork_migrate cfg fromString now osw (new_home, None) t = (Return False, t))
 \<and> (rw_resourceID rw \<noteq> None \<longrightarrow>
      ScheduleReplyWork_migrate cfg fromString now rw (new_home, None) t = (Return False, t))
 \<and> ScheduleRefreshWork_migrate cfg set_iter now rfw attendees (new_home, None) t = (Return False, t)
 \<and> ScheduleAutoReplyWork_migrate cfg now arw (new_home, None) t = (Return False, t)
 \<and> (\<not> (ow_resourceID ow \<noteq> None \<and> new_resource = None) \<and>
      fromString (if ow_icalendarTextOld ow \<noteq> [] then ow_icalendarTextOld ow
                  else ow_icalendarTextNew ow) = Return calendar \<longrightarrow>
      (let r = ScheduleOrganizerWork_migrate cfg fromString now ow (new_home, new_resource) t
       in fst r = Return True
        \<and> SCHEDULE_ORGANIZER_WORK (snd r) = SCHEDULE_ORGANIZER_WORK t @
             [\<lparr>ow_workID = WORKITEM_SEQ t, ow_homeResourceID = home_id new_home,
               ow_resourceID = resource_id new_resource,
               ow_scheduleAction = ow_scheduleAction ow,
               ow_icalendarTextOld = ow_icalendarTextOld ow,
               ow_icalendarTextNew = ow_icalendarTextNew ow,
               ow_attendeeCount = ow_attendeeCount ow, ow_smartMerge = ow_smartMerge ow\<rparr>]
        \<and> SCHEDULE_WORK (snd r) = SCHEDULE_WORK t @
             [\<lparr>sw_workID = WORKITEM_SEQ t, sw_jobID = JOB_SEQ t,
               sw_icalendarUID = ical_resourceUID calendar, sw_workType = ScheduleOrganizerWork\<rparr>]
        \<and> JOB (snd r) = JOB t @
             [\<lparr>job_jobID = JOB_SEQ t, job_workType = ScheduleOrganizerWork,
               job_notBefore = now + RequestDelaySeconds cfg, job_failed = 0, job_pause = 1\<rparr>]))
 \<and> (\<not> (osw_resourceID osw \<noteq> None \<and> new_resource = None) \<and> osw_itipMsg osw \<noteq> [] \<and>
      fromString (osw_itipMsg osw) = Return itipmsg \<longrightarrow>
      (let r = ScheduleOrganizerSendWork_migrate cfg fromString now osw (new_home, new_resource) t
       in fst r = Return True
        \<and> SCHEDULE_ORGANIZER_SEND_WORK (snd r) = SCHEDULE_ORGANIZER_SEND_WORK t @
             [\<lparr>osw_workID = WORKITEM_SEQ t, osw_homeResourceID = home_id new_home,
               osw_resourceID = resource_id new_resource,
               osw_scheduleAction = osw_scheduleAction osw, osw_attendee = osw_attendee osw,
               osw_itipMsg = ical_text itipmsg, osw_noRefresh = osw_noRefresh osw\<rparr>]
        \<and> SCHEDULE_WORK (snd r) = SCHEDULE_WORK t @
             [\<lparr>sw_workID = WORKITEM_SEQ t, sw_jobID = JOB_SEQ t,
               sw_icalendarUID = ical_resourceUID itipmsg,
               sw_workType = ScheduleOrganizerSendWork\<rparr>]
        \<and> JOB (snd r) = JOB t @
             [\<lparr>job_jobID = JOB_SEQ t, job_workType = ScheduleOrganizerSendWork,
               job_notBefore = now + (RequestDelaySeconds cfg + 0), job_failed = 0,
               job_pause = 1\<rparr>]))
 \<and> (\<not> (rw_resourceID rw \<noteq> None \<and> new_resource = None) \<and> rw_itipMsg rw \<noteq> [] \<and>
      fromString (rw_itipMsg rw) = Return itipmsg \<longrightarrow>
      (let r = ScheduleReplyWork_migrate cfg fromString now rw (new_home, new_resource) t
       in fst r = Return True
        \<and> SCHEDULE_REPLY_WORK (snd r) = SCHEDULE_REPLY_WORK t @
             [\<lparr>rw_workID = WORKITEM_SEQ t, rw_homeResourceID = home_id new_home,
               rw_resourceID = resource_id new_resource, rw_itipMsg = ical_text itipmsg\<rparr>]
        \<and> SCHEDULE_WORK (snd r) = SCHEDULE_WORK t @
             [\<lparr>sw_workID = WORKITEM_SEQ t, sw_jobID = JOB_SEQ t,
               sw_icalendarUID = ical_resourceUID itipmsg, sw_workType = ScheduleReplyWork\<rparr>]
        \<and> JOB (snd r) = JOB t @
             [\<lparr>job_jobID = JOB_SEQ t, job_workType = ScheduleReplyWork,
               job_notBefore = now + ReplyDelaySeconds cfg, job_failed = 0, job_pause = 1\<rparr>]))
 \<and> (let r = ScheduleRefreshWork_migrate cfg set_iter now rfw attendees (new_home, Some resource) t
     in fst r = Return True
      \<and> SCHEDULE_REFRESH_WORK (snd r) = SCHEDULE_REFRESH_WORK t @
           [\<lparr>rfw_workID = WORKITEM_SEQ t, rfw_homeResourceID = co_home resource,
             rfw_resourceID = co_id resource, rfw_attendeeCount = int (length attendees)\<rparr>]
      \<and> SCHEDULE_WORK (snd r) = SCHEDULE_WORK t @
           [\<lparr>sw_workID = WORKITEM_SEQ t, sw_jobID = JOB_SEQ t,
             sw_icalendarUID = co_uid resource, sw_workType = ScheduleRefreshWork\<rparr>]
      \<and> JOB (snd r) = JOB t @
           [\<lparr>job_jobID = JOB_SEQ t, job_workType = ScheduleRefreshWork,
             job_notBefore = now + AttendeeRefreshBatchDelaySeconds cfg, job_failed = 0,
             job_pause = 1\<rparr>])
 \<and> (let r = ScheduleAutoReplyWork_migrate cfg now arw (new_home, Some resource) t
     in fst r = Return True
      \<and> SCHEDULE_AUTO_REPLY_WORK (snd r) = SCHEDULE_AUTO_REPLY_WORK t @
           [\<lparr>arw_workID = WORKITEM_SEQ t, arw_homeResourceID = co_home resource,
             arw_resourceID = co_id resource, arw_partstat = arw_partstat arw\<rparr>]
      \<and> SCHEDULE_WORK (snd r) = SCHEDULE_WORK t @
           [\<lparr>sw_workID = WORKITEM_SEQ t, sw_jobID = JOB_SEQ t,
             sw_icalendarUID = co_uid resource, sw_workType = ScheduleAutoReplyWork\<rparr>]
      \<and> JOB (snd r) = JOB t @
           [\<lparr>job_jobID = JOB_SEQ t, job_workType = ScheduleAutoReplyWork,
             job_notBefore = now + AutoReplyDelaySeconds cfg, job_failed = 0, job_pause = 1\<rparr>])"
proof (intro conjI impI)
  show "ScheduleOrganizerWork_migrate cfg fromString now ow (new_home, None) t = (Return False, t)"
    if "ow_resourceID ow \<noteq> None"
    using that by (simp add: ScheduleOrganizerWork_migrate_def)
  show "ScheduleOrganizerSendWork_migrate cfg fromString now osw (new_home, None) t = (Return False, t)"
    if "osw_resourceID osw \<noteq> None"
    using that by (simp add: ScheduleOrganizerSendWork_migrate_def)
  show "ScheduleReplyWork_migrate cfg fromString now rw (new_home, None) t = (Return False, t)"
    if "rw_resourceID rw \<noteq> None"
    using that by (simp add: ScheduleReplyWork_migrate_def)
  show "ScheduleRefreshWork_migrate cfg set_iter now rfw attendees (new_home, None) t = (Return False, t)"
    by (simp add: ScheduleRefreshWork_migrate_def)
  show "ScheduleAutoReplyWork_migrate cfg now arw (new_home, None) t = (Return False, t)"
    by (simp add: ScheduleAutoReplyWork_migrate_def)
next
  assume "\<not> (ow_resourceID ow \<noteq> None \<and> new_resource = None) \<and>
      fromString (if ow_icalendarTextOld ow \<noteq> [] then ow_icalendarTextOld ow
                  else ow_icalendarTextNew ow) = Return calendar"
  then show "let r = ScheduleOrganizerWork_migrate cfg fromString now ow (new_home, new_resource) t
       in fst r = Return True
        \<and> SCHEDULE_ORGANIZER_WORK (snd r) = SCHEDULE_ORGANIZER_WORK t @
             [\<lparr>ow_workID = WORKITEM_SEQ t, ow_homeResourceID = home_id new_home,
               ow_resourceID = resource_id new_resource,
               ow_scheduleAction = ow_scheduleAction ow,
               ow_icalendarTextOld = ow_icalendarTextOld ow,
               ow_icalendarTextNew = ow_icalendarTextNew ow,
               ow_attendeeCount = ow_attendeeCount ow, ow_smartMerge = ow_smartMerge ow\<rparr>]
        \<and> SCHEDULE_WORK (snd r) = SCHEDULE_WORK t @
             [\<lparr>sw_workID = WORKITEM_SEQ t, sw_jobID = JOB_SEQ t,
               sw_icalendarUID = ical_resourceUID calendar, sw_workType = ScheduleOrganizerWork\<rparr>]
        \<and> JOB (snd r) = JOB t @
             [\<lparr>job_jobID = JOB_SEQ t, job_workType = ScheduleOrganizerWork,
               job_notBefore = now + RequestDelaySeconds cfg, job_failed = 0, job_pause = 1\<rparr>]"
    by (auto simp add: ScheduleOrganizerWork_migrate_def organizer_schedule_result Let_def)
next
  assume "\<not> (osw_resourceID osw \<noteq> None \<and> new_resource = None) \<and> osw_itipMsg osw \<noteq> [] \<and>
      fromString (osw_itipMsg osw) = Return itipmsg"
  then show "let r = ScheduleOrganizerSendWork_migrate cfg fromString now osw (new_home, new_resource) t
       in fst r = Return True
        \<and> SCHEDULE_ORGANIZER_SEND_WORK (snd r) = SCHEDULE_ORGANIZER_SEND_WORK t @
             [\<lparr>osw_workID = WORKITEM_SEQ t, osw_homeResourceID = home_id new_home,
               osw_resourceID = resource_id new_resource,
               osw_scheduleAction = osw_scheduleAction osw, osw_attendee = osw_attendee osw,
               osw_itipMsg = ical_text itipmsg, osw_noRefresh = osw_noRefresh osw\<rparr>]
        \<and> SCHEDULE_WORK (snd r) = SCHEDULE_WORK t @
             [\<lparr>sw_workID = WORKITEM_SEQ t, sw_jobID = JOB_SEQ t,
               sw_icalendarUID = ical_resourceUID itipmsg,
               sw_workType = ScheduleOrganizerSendWork\<rparr>]
        \<and> JOB (snd r) = JOB t @
             [\<lparr>job_jobID = JOB_SEQ t, job_workType = ScheduleOrganizerSendWork,
               job_notBefore = now + (RequestDelaySeconds cfg + 0), job_failed = 0,
               job_pause = 1\<rparr>]"
    by (auto simp add: ScheduleOrganizerSendWork_migrate_def send_schedule_result Let_def)
next
  assume "\<not> (rw_resourceID rw \<noteq> None \<and> new_resource = None) \<and> rw_itipMsg rw \<noteq> [] \<and>
      fromString (rw_itipMsg rw) = Return itipmsg"
  then show "let r = ScheduleReplyWork_migrate cfg fromString now rw (new_home, new_resource) t
       in fst r = Return True
        \<and> SCHEDULE_REPLY_WORK (snd r) = SCHEDULE_REPLY_WORK t @
             [\<lparr>rw_workID = WORKITEM_SEQ t, rw_homeResourceID = home_id new_home,
               rw_resourceID = resource_id new_resource, rw_itipMsg = ical_text itipmsg\<rparr>]
        \<and> SCHEDULE_WORK (snd r) = SCHEDULE_WORK t @
             [\<lparr>sw_workID = WORKITEM_SEQ t, sw_jobID = JOB_SEQ t,
               sw_icalendarUID = ical_resourceUID itipmsg, sw_workType = ScheduleReplyWork\<rparr>]
        \<and> JOB (snd r) = JOB t @
             [\<lparr>job_jobID = JOB_SEQ t, job_workType = ScheduleReplyWork,
               job_notBefore = now + ReplyDelaySeconds cfg, job_failed = 0, job_pause = 1\<rparr>]"
    by (auto simp add: ScheduleReplyWork_migrate_def reply_result Let_def)
next
  show "let r = ScheduleRefreshWork_migrate cfg set_iter now rfw attendees (new_home, Some resource) t
     in fst r = Return True
      \<and> SCHEDULE_REFRESH_WORK (snd r) = SCHEDULE_REFRESH_WORK t @
           [\<lparr>rfw_workID = WORKITEM_SEQ t, rfw_homeResourceID = co_home resource,
             rfw_resourceID = co_id resource, rfw_attendeeCount = int (length attendees)\<rparr>]
      \<and> SCHEDULE_WORK (snd r) = SCHEDULE_WORK t @
           [\<lparr>sw_workID = WORKITEM_SEQ t, sw_jobID = JOB_SEQ t,
             sw_icalendarUID = co_uid resource, sw_workType = ScheduleRefreshWork\<rparr>]
      \<and> JOB (snd r) = JOB t @
           [\<lparr>job_jobID = JOB_SEQ t, job_workType = ScheduleRefreshWork,
             job_notBefore = now + AttendeeRefreshBatchDelaySeconds cfg, job_failed = 0,
             job_pause = 1\<rparr>]"
    by (simp add: ScheduleRefreshWork_migrate_def Let_def
        refreshAttendees_result [where set_iter = set_iter and t = t and attendees = attendees
          and organizer_resource = resource, OF refl])
next
  show "let r = ScheduleAutoReplyWork_migrate cfg now arw (new_home, Some resource) t
     in fst r = Return True
      \<and> SCHEDULE_AUTO_REPLY_WORK (snd r) = SCHEDULE_AUTO_REPLY_WORK t @
           [\<lparr>arw_workID = WORKITEM_SEQ t, arw_homeResourceID = co_home resource,
             arw_resourceID = co_id resource, arw_partstat = arw_partstat arw\<rparr>]
      \<and> SCHEDULE_WORK (snd r) = SCHEDULE_WORK t @
           [\<lparr>sw_workID = WORKITEM_SEQ t, sw_jobID = JOB_SEQ t,
             sw_icalendarUID = co_uid resource, sw_workType = ScheduleAutoReplyWork\<rparr>]
      \<and> JOB (snd r) = JOB t @
           [\<lparr>job_jobID = JOB_SEQ t, job_workType = ScheduleAutoReplyWork,
             job_notBefore = now + AutoReplyDelaySeconds cfg, job_failed = 0, job_pause = 1\<rparr>]"
    by (simp add: ScheduleAutoReplyWork_migrate_def Let_def autoReply_result)
qed

text \<open>
  A reply item whose stored resource id is null, and a callback that maps it to no
  destination resource: the test \<open>self.resourceID is not None and new_resource is None\<close>
  fails, a paused reply item is enqueued under the new home and migrate returns True.
\<close>

theorem migrate_reply_without_resource_counterexample:
  "fst (ScheduleReplyWork_migrate cfg0 fromString0 100 (reply0\<lparr>rw_resourceID := None\<rparr>)
          (home1, None) empty_txn) = Return True
   \<and> SCHEDULE_REPLY_WORK
        (snd (ScheduleReplyWork_migrate cfg0 fromString0 100 (reply0\<lparr>rw_resourceID := None\<rparr>)
               (home1, None) empty_txn))
     = [\<lparr>rw_workID = 10, rw_homeResourceID = 21, rw_resourceID = None,
         rw_itipMsg = ''BEGIN:VCALENDAR''\<rparr>]
   \<and> JOB (snd (ScheduleReplyWork_migrate cfg0 fromString0 100 (reply0\<lparr>rw_resourceID := None\<rparr>)
               (home1, None) empty_txn))
     = [\<lparr>job_jobID = 10, job_workType = ScheduleReplyWork, job_notBefore = 101,
         job_failed = 0, job_pause = 1\<rparr>]"
  by (simp add: ScheduleReplyWork_migrate_def reply_result reply0_def fromString0_def
      resource_id_def home1_def cfg0_def empty_txn_def)

text \<open>
  A send or reply item whose stored iTIP message is empty, with a destination home and
  resource: the local \<open>itipmsg\<close> is read unbound and migrate raises.
\<close>

lemma migrate_empty_message_raises:
  "ScheduleOrganizerSendWork_migrate cfg0 fromString0 100 (send0\<lparr>osw_itipMsg := []\<rparr>)
     (home1, Some object1) empty_txn = (Raise UnboundLocalError, empty_txn)
   \<and> ScheduleReplyWork_migrate cfg0 fromString0 100 (reply0\<lparr>rw_itipMsg := []\<rparr>)
     (home1, Some object1) empty_txn = (Raise UnboundLocalError, empty_txn)"
  by (simp add: ScheduleOrganizerSendWork_migrate_def ScheduleReplyWork_migrate_def)

theorem migrate_drops_unmapped_and_pauses_mapped_witness:
  "ScheduleOrganizerSendWork_migrate cfg0 fromString0 100 send0 (home1, None) empty_txn
     = (Return False, empty_txn)
   \<and> fst (ScheduleOrganizerSendWork_migrate cfg0 fromString0 100 send0 (home1, Some object1) empty_txn)
     = Return True
   \<and> SCHEDULE_ORGANIZER_SEND_WORK
        (snd (ScheduleOrganizerSendWork_migrate cfg0 fromString0 100 send0 (home1, Some object1)
           empty_txn))
     = [send0\<lparr>osw_workID := 10, osw_homeResourceID := 21, osw_resourceID := Some 27\<rparr>]
   \<and> map job_pause (JOB (snd (ScheduleOrganizerSendWork_migrate cfg0 fromString0 100 send0
        (home1, Some object1) empty_txn))) = [1]
   \<and> fst (ScheduleOrganizerWork_migrate cfg0 fromString0 100 organizer0 (home1, None) empty_txn)
     = Return True
   \<and> map ow_homeResourceID (SCHEDULE_ORGANIZER_WORK
        (snd (ScheduleOrganizerWork_migrate cfg0 fromString0 100 organizer0 (home1, None) empty_txn)))
     = [21]"
proof -
  have a: "osw_resourceID send0 \<noteq> None" "osw_itipMsg send0 \<noteq> []"
    "fromString0 (osw_itipMsg send0) = Return \<lparr>ical_resourceUID = ''uid-1'', ical_text = osw_itipMsg send0\<rparr>"
    "ow_resourceID organizer0 = None"
    "fromString0 (if ow_icalendarTextOld organizer0 \<noteq> [] then ow_icalendarTextOld organizer0
                  else ow_icalendarTextNew organizer0)
       = Return \<lparr>ical_resourceUID = ''uid-1'', ical_text = ow_icalendarTextNew organizer0\<rparr>"
    by (simp_all add: send0_def organizer0_def fromString0_def)
  note w1 = migrate_drops_unmapped_and_pauses_mapped [where osw = send0 and fromString = fromString0
      and new_resource = "Some object1" and new_home = home1 and t = empty_txn and cfg = cfg0
      and now = 100 and itipmsg = "\<lparr>ical_resourceUID = ''uid-1'', ical_text = osw_itipMsg send0\<rparr>"]
  note w2 = migrate_drops_unmapped_and_pauses_mapped [where ow = organizer0 and fromString = fromString0
      and new_resource = None and new_home = home1 and t = empty_txn and cfg = cfg0
      and now = 100 and calendar = "\<lparr>ical_resourceUID = ''uid-1'', ical_text = ow_icalendarTextNew organizer0\<rparr>"]
  from w1 w2 a show ?thesis
    by (simp add: Let_def empty_txn_def send0_def home1_def object1_def resource_id_def)
qed

end
